theory Spec2Isabelle
  imports Complex_Main
begin

section \<open>RocketBuilder: the stage-sizing core\<close>

text \<open>
  The development embeds \<^verbatim>\<open>constants.py\<close>, \<^verbatim>\<open>propulsion.py\<close>,
  \<^verbatim>\<open>functions.py\<close> and \<^verbatim>\<open>newtonraphson.py\<close>.

  Numbers. Every quantity of the program is a Python or numpy float. Finite floats are
  idealised as real numbers: \<^verbatim>\<open>np.exp\<close> is \<^term>\<open>exp\<close>, \<^verbatim>\<open>np.sqrt\<close> is \<^term>\<open>sqrt\<close>;
  rounding, overflow and underflow are outside the model. The arguments that a caller
  passes in and the attributes of an \<^verbatim>\<open>Engine\<close> are finite Python floats.

  Division. HOL's \<open>x / 0\<close> is \<open>0\<close>; the program has no such value, and what it does depends
  on the operands. Dividing a Python float by a Python zero raises
  \<^verbatim>\<open>ZeroDivisionError\<close>: these divisions are guarded and return the error value
  \<open>ZeroDivision\<close>. As soon as one operand is a numpy scalar (everything computed from the
  result of \<^verbatim>\<open>np.exp\<close> is one) the division follows IEEE 754: it emits a
  \<^verbatim>\<open>RuntimeWarning\<close>, yields an infinity or a NaN, and the program goes on. The values
  that such code computes are therefore modelled by the type \<open>npfloat\<close> below, which adds the
  negative zero, the two infinities and NaN to the finite numbers.
\<close>

subsection \<open>Errors and results\<close>

datatype error = ZeroDivision | AttributeError | TypeError

type_synonym 'a result = "error + 'a"

text \<open>Sequencing of fallible steps: the first error ends the computation.\<close>

definition bind_result :: "'a result \<Rightarrow> ('a \<Rightarrow> 'b result) \<Rightarrow> 'b result" where
  "bind_result r k = (case r of Inl e \<Rightarrow> Inl e | Inr v \<Rightarrow> k v)"

definition divide_checked :: "real \<Rightarrow> real \<Rightarrow> real result" where
  "divide_checked a b = (if b = 0 then Inl ZeroDivision else Inr (a / b))"

subsection \<open>\<^verbatim>\<open>constants.py\<close>\<close>

definition g :: real where
  "g = 980665 / 100000"

subsection \<open>\<^verbatim>\<open>functions.py\<close>: \<^verbatim>\<open>mass_fractions\<close>\<close>

text \<open>
  The result is the tuple \<open>(pi_bo, pi_prop, pi_pl, pi_se)\<close>; Python's \<^verbatim>\<open>return None\<close>
  (the infeasible split) is \<open>Inr None\<close>.
\<close>

type_synonym fracs = "real \<times> real \<times> real \<times> real"

definition mass_fractions :: "real \<Rightarrow> real \<Rightarrow> real \<Rightarrow> fracs option result" where
  "mass_fractions isp dv pi_se =
     (let ve = isp * g in
      bind_result (divide_checked (- dv) ve) (\<lambda>q.
        let pi_bo = exp q in
        if pi_se > pi_bo then Inr None
        else
          let pi_pl = pi_bo - pi_se;
              pi_prop = 1 - pi_bo
          in Inr (Some (pi_bo, pi_prop, pi_pl, pi_se))))"

subsection \<open>numpy scalars\<close>

text \<open>
  A \<^verbatim>\<open>np.float64\<close>: a finite number (\<open>Fin 0\<close> is the positive zero), the negative zero,
  an infinity or NaN. The operations are those of IEEE 754 with rounding idealised: a
  finite result is the exact real, and only the special values follow the standard's
  tables. Python floats obey the same tables, except that their division by zero raises.
\<close>

datatype npfloat = Fin real | NegZero | PInf | NInf | NaN

fun is_zero :: "npfloat \<Rightarrow> bool" where
  "is_zero (Fin x) = (x = 0)"
| "is_zero NegZero = True"
| "is_zero PInf = False"
| "is_zero NInf = False"
| "is_zero NaN = False"

fun is_inf :: "npfloat \<Rightarrow> bool" where
  "is_inf (Fin x) = False"
| "is_inf NegZero = False"
| "is_inf PInf = True"
| "is_inf NInf = True"
| "is_inf NaN = False"

text \<open>The sign bit and the real value of a finite number.\<close>

fun is_neg :: "npfloat \<Rightarrow> bool" where
  "is_neg (Fin x) = (x < 0)"
| "is_neg NegZero = True"
| "is_neg PInf = False"
| "is_neg NInf = True"
| "is_neg NaN = False"

fun val :: "npfloat \<Rightarrow> real" where
  "val (Fin x) = x"
| "val NegZero = 0"
| "val PInf = 0"
| "val NInf = 0"
| "val NaN = 0"

definition signed_zero :: "bool \<Rightarrow> npfloat" where
  "signed_zero neg = (if neg then NegZero else Fin 0)"

definition signed_inf :: "bool \<Rightarrow> npfloat" where
  "signed_inf neg = (if neg then NInf else PInf)"

fun np_neg :: "npfloat \<Rightarrow> npfloat" where
  "np_neg (Fin x) = (if x = 0 then NegZero else Fin (- x))"
| "np_neg NegZero = Fin 0"
| "np_neg PInf = NInf"
| "np_neg NInf = PInf"
| "np_neg NaN = NaN"

text \<open>
  Addition: \<open>inf + (-inf)\<close> is NaN; a sum of two zeros is negative only if both are; an
  exact zero sum of two nonzero numbers is the positive zero.
\<close>

fun np_add :: "npfloat \<Rightarrow> npfloat \<Rightarrow> npfloat" where
  "np_add NaN b = NaN"
| "np_add a NaN = NaN"
| "np_add PInf NInf = NaN"
| "np_add NInf PInf = NaN"
| "np_add PInf b = PInf"
| "np_add a PInf = PInf"
| "np_add NInf b = NInf"
| "np_add a NInf = NInf"
| "np_add NegZero NegZero = NegZero"
| "np_add NegZero (Fin y) = Fin y"
| "np_add (Fin x) NegZero = Fin x"
| "np_add (Fin x) (Fin y) = Fin (x + y)"

definition np_sub :: "npfloat \<Rightarrow> npfloat \<Rightarrow> npfloat" where
  "np_sub a b = np_add a (np_neg b)"

text \<open>
  Multiplication and division: the sign of the result is the exclusive or of the signs;
  \<open>inf * 0\<close>, \<open>inf / inf\<close> and \<open>0 / 0\<close> are NaN; a nonzero number over a zero is an infinity.
\<close>

definition np_mul :: "npfloat \<Rightarrow> npfloat \<Rightarrow> npfloat" where
  "np_mul a b =
     (if a = NaN \<or> b = NaN then NaN
      else if (is_inf a \<and> is_zero b) \<or> (is_zero a \<and> is_inf b) then NaN
      else if is_inf a \<or> is_inf b then signed_inf (is_neg a \<noteq> is_neg b)
      else if is_zero a \<or> is_zero b then signed_zero (is_neg a \<noteq> is_neg b)
      else Fin (val a * val b))"

definition np_div :: "npfloat \<Rightarrow> npfloat \<Rightarrow> npfloat" where
  "np_div a b =
     (if a = NaN \<or> b = NaN then NaN
      else if (is_inf a \<and> is_inf b) \<or> (is_zero a \<and> is_zero b) then NaN
      else if is_inf a \<or> is_zero b then signed_inf (is_neg a \<noteq> is_neg b)
      else if is_zero a \<or> is_inf b then signed_zero (is_neg a \<noteq> is_neg b)
      else Fin (val a / val b))"

text \<open>Division of Python floats: the same, but a zero divisor raises.\<close>

definition py_div :: "npfloat \<Rightarrow> npfloat \<Rightarrow> npfloat result" where
  "py_div a b = (if is_zero b then Inl ZeroDivision else Inr (np_div a b))"

fun np_abs :: "npfloat \<Rightarrow> npfloat" where
  "np_abs (Fin x) = Fin \<bar>x\<bar>"
| "np_abs NegZero = Fin 0"
| "np_abs PInf = PInf"
| "np_abs NInf = PInf"
| "np_abs NaN = NaN"

text \<open>\<^verbatim>\<open>np.ceil\<close>: a number in \<open>(-1, 0)\<close> is rounded up to the negative zero.\<close>

fun np_ceil :: "npfloat \<Rightarrow> npfloat" where
  "np_ceil (Fin x) = (if \<lceil>x\<rceil> = 0 \<and> x < 0 then NegZero else Fin (real_of_int \<lceil>x\<rceil>))"
| "np_ceil NegZero = NegZero"
| "np_ceil PInf = PInf"
| "np_ceil NInf = NInf"
| "np_ceil NaN = NaN"

text \<open>Comparisons: every comparison with NaN is false, and the two zeros are equal.\<close>

fun np_gt :: "npfloat \<Rightarrow> npfloat \<Rightarrow> bool" where
  "np_gt NaN b = False"
| "np_gt a NaN = False"
| "np_gt PInf b = (b \<noteq> PInf)"
| "np_gt a PInf = False"
| "np_gt NInf b = False"
| "np_gt a NInf = True"
| "np_gt a b = (val a > val b)"

fun np_ge :: "npfloat \<Rightarrow> npfloat \<Rightarrow> bool" where
  "np_ge NaN b = False"
| "np_ge a NaN = False"
| "np_ge PInf b = True"
| "np_ge a PInf = False"
| "np_ge a NInf = True"
| "np_ge NInf b = False"
| "np_ge a b = (val a \<ge> val b)"

text \<open>The values that are not numbers of the real line.\<close>

definition nonfinite :: "npfloat \<Rightarrow> bool" where
  "nonfinite a = (a = PInf \<or> a = NInf \<or> a = NaN)"

subsection \<open>\<^verbatim>\<open>mass_fractions\<close> on a numpy trial fraction\<close>

text \<open>
  Lines 18 to 28 again, for a call whose \<^verbatim>\<open>pi_se\<close> may be any float: \<^verbatim>\<open>size_vehicle\<close>
  passes the iterate of its loop, which is a numpy scalar after the first update and need
  not be finite. \<^verbatim>\<open>isp\<close> and \<^verbatim>\<open>dv\<close> are finite Python floats as before, so
  \<^verbatim>\<open>-dv/ve\<close> still raises on a zero \<^verbatim>\<open>ve\<close>, and \<^verbatim>\<open>pi_bo\<close> and \<^verbatim>\<open>pi_prop\<close> are finite.
\<close>

type_synonym np_fracs = "real \<times> real \<times> npfloat \<times> npfloat"

definition mass_fractions_np :: "real \<Rightarrow> real \<Rightarrow> npfloat \<Rightarrow> np_fracs option result" where
  "mass_fractions_np isp dv pi_se =
     (let ve = isp * g in
      bind_result (divide_checked (- dv) ve) (\<lambda>q.
        let pi_bo = exp q in
        if np_gt pi_se (Fin pi_bo) then Inr None
        else
          let pi_pl = np_sub (Fin pi_bo) pi_se;
              pi_prop = 1 - pi_bo
          in Inr (Some (pi_bo, pi_prop, pi_pl, pi_se))))"

subsection \<open>\<^verbatim>\<open>propulsion.py\<close>: \<^verbatim>\<open>Fluid\<close> and \<^verbatim>\<open>Engine\<close>\<close>

record fluid =
  rho :: real
  T :: real

text \<open>
  An object of class \<^verbatim>\<open>Engine\<close>. The attribute \<^verbatim>\<open>mass\<close> may be absent from the object,
  so the field is an option: reading it when it is \<open>None\<close> is Python's
  \<^verbatim>\<open>AttributeError\<close>.
\<close>

record engine =
  F :: real
  isp :: real
  mass :: "real option"
  ox :: fluid
  fuel :: fluid
  MR :: real
  mdot :: real

text \<open>
  \<^verbatim>\<open>Engine.__init__(thrust, isp, fuel, ox, MR, mass=None)\<close>. The last argument is
  \<open>None\<close> when the caller leaves the default. \<^verbatim>\<open>self.mass\<close> is assigned inside
  \<^verbatim>\<open>if mass is None:\<close> only; there is no \<^verbatim>\<open>else\<close>.
\<close>

definition Engine ::
  "real \<Rightarrow> real \<Rightarrow> fluid \<Rightarrow> fluid \<Rightarrow> real \<Rightarrow> real option \<Rightarrow> engine result" where
  "Engine thrust isp' fuel' ox' MR' mass' =
     bind_result (divide_checked thrust (isp' * g)) (\<lambda>mdot'.
       Inr \<lparr>F = thrust,
            isp = isp',
            mass = (case mass' of
                      None \<Rightarrow> Some (0.000781 * thrust + 0.0000337 * thrust * sqrt 30 + 59)
                    | Some _ \<Rightarrow> None),
            ox = ox',
            fuel = fuel',
            MR = MR',
            mdot = mdot'\<rparr>)"

definition lox :: fluid where
  "lox = \<lparr>rho = 1140, T = 88.71\<rparr>"

definition rp1 :: fluid where
  "rp1 = \<lparr>rho = 730, T = 300\<rparr>"

definition lh2 :: fluid where
  "lh2 = \<lparr>rho = 41, T = 20.15\<rparr>"

definition rl10 :: "engine result" where
  "rl10 = Engine 110100 465.5 lh2 lox 6.0 None"

definition rd180 :: "engine result" where
  "rd180 = Engine 3830000 338 rp1 lox 2.4 None"

subsection \<open>\<^verbatim>\<open>functions.py\<close>: \<^verbatim>\<open>prop_budget\<close>\<close>

text \<open>
  The result is the tuple \<open>(m_ox, m_f, v_ox, v_f, startup_losses)\<close>, or \<open>Inr None\<close> for
  \<^verbatim>\<open>return None\<close>. The two console messages are the function \<open>prop_budget_prints\<close>.
\<close>

type_synonym budget = "real \<times> real \<times> real \<times> real \<times> real"

definition prop_budget :: "real \<Rightarrow> engine \<Rightarrow> real \<Rightarrow> real \<Rightarrow> budget option result" where
  "prop_budget m_prop e f_ullage t_startup =
     (if f_ullage \<ge> 1 then Inr None
      else
        bind_result (divide_checked (mdot e * t_startup * 2 * MR e) (MR e + 1)) (\<lambda>m_ox_startup.
        bind_result (divide_checked (MR e * m_prop) (MR e + 1)) (\<lambda>m_ox.
        bind_result (divide_checked (m_ox + m_ox_startup) (rho (ox e))) (\<lambda>q_ox.
        bind_result (divide_checked q_ox (1 - f_ullage)) (\<lambda>v_ox.
        bind_result (divide_checked (mdot e * t_startup * 2) (MR e + 1)) (\<lambda>m_fuel_startup.
        bind_result (divide_checked m_prop (MR e + 1)) (\<lambda>m_f.
        bind_result (divide_checked (m_f + m_fuel_startup) (rho (fuel e))) (\<lambda>q_f.
        bind_result (divide_checked q_f (1 - f_ullage)) (\<lambda>v_f.
        let startup_losses = m_fuel_startup + m_ox_startup
        in Inr (Some (m_ox, m_f, v_ox, v_f, startup_losses)))))))))))"

definition prop_budget_prints :: "real \<Rightarrow> string list" where
  "prop_budget_prints f_ullage =
     (if f_ullage \<ge> 1 then [''Ullage fraction too high: less than or equal to one'']
      else if f_ullage < 0 then [''Ullage fraction too low: must be over zero'']
      else [])"

subsection \<open>\<^verbatim>\<open>prop_budget\<close> on a numpy propellant mass\<close>

text \<open>
  Lines 45 to 64 again, as \<^verbatim>\<open>get_margin\<close> calls them: \<^verbatim>\<open>m_prop\<close> is a numpy scalar. The
  two startup masses are computed from the engine's attributes alone, so their divisions
  are divisions of Python floats and raise on \<open>MR + 1 = 0\<close>; the first of them is the first
  division of the function. Every other division has a numpy operand and never raises.
\<close>

type_synonym np_budget = "npfloat \<times> npfloat \<times> npfloat \<times> npfloat \<times> npfloat"

definition prop_budget_np :: "npfloat \<Rightarrow> engine \<Rightarrow> real \<Rightarrow> real \<Rightarrow> np_budget option result" where
  "prop_budget_np m_prop e f_ullage t_startup =
     (if f_ullage \<ge> 1 then Inr None
      else
        bind_result
          (py_div (np_mul (np_mul (np_mul (Fin (mdot e)) (Fin t_startup)) (Fin 2)) (Fin (MR e)))
             (np_add (Fin (MR e)) (Fin 1))) (\<lambda>m_ox_startup.
        let m_ox = np_div (np_mul (Fin (MR e)) m_prop) (np_add (Fin (MR e)) (Fin 1));
            v_ox = np_div (np_div (np_add m_ox m_ox_startup) (Fin (rho (ox e))))
                     (np_sub (Fin 1) (Fin f_ullage))
        in
        bind_result
          (py_div (np_mul (np_mul (Fin (mdot e)) (Fin t_startup)) (Fin 2))
             (np_add (Fin (MR e)) (Fin 1))) (\<lambda>m_fuel_startup.
        let m_f = np_div m_prop (np_add (Fin (MR e)) (Fin 1));
            v_f = np_div (np_div (np_add m_f m_fuel_startup) (Fin (rho (fuel e))))
                    (np_sub (Fin 1) (Fin f_ullage));
            startup_losses = np_add m_fuel_startup m_ox_startup
        in Inr (Some (m_ox, m_f, v_ox, v_f, startup_losses)))))"

subsection \<open>\<^verbatim>\<open>functions.py\<close>: \<^verbatim>\<open>get_margin\<close>\<close>

text \<open>
  \<^verbatim>\<open>get_margin(engine, mpl, dv, pi_se)\<close>: \<^verbatim>\<open>dv\<close> is a finite Python float; \<^verbatim>\<open>mpl\<close> and
  \<^verbatim>\<open>pi_se\<close> may be any float, since \<^verbatim>\<open>size_vehicle\<close> and the sweep pass computed values.

  The repair loop of lines 100 to 102,
  \<^verbatim>\<open>while fracs is None: pi_se = pi_se/2; fracs = mass_fractions(engine.isp, dv, pi_se)\<close>.
  The outer \<open>option\<close> is termination: \<open>None\<close> is a loop that never ends.
\<close>

partial_function (option) halve_loop :: "real \<Rightarrow> real \<Rightarrow> npfloat \<Rightarrow> np_fracs result option" where
  "halve_loop isp' dv pi_se =
     (case mass_fractions_np isp' dv (np_div pi_se (Fin 2)) of
        Inl err \<Rightarrow> Some (Inl err)
      | Inr None \<Rightarrow> halve_loop isp' dv (np_div pi_se (Fin 2))
      | Inr (Some fracs) \<Rightarrow> Some (Inr fracs))"

text \<open>Lines 97 to 103: the fraction set that the rest of \<^verbatim>\<open>get_margin\<close> unpacks.\<close>

definition repaired_fracs :: "engine \<Rightarrow> real \<Rightarrow> npfloat \<Rightarrow> np_fracs result option" where
  "repaired_fracs e dv pi_se =
     (case mass_fractions_np (isp e) dv pi_se of
        Inl err \<Rightarrow> Some (Inl err)
      | Inr None \<Rightarrow> halve_loop (isp e) dv pi_se
      | Inr (Some fracs) \<Rightarrow> Some (Inr fracs))"

text \<open>
  Lines 104 to 115. \<^verbatim>\<open>pi_pl\<close> is a numpy scalar, and so is everything computed from it:
  none of the three divisions of these lines raises. \<^verbatim>\<open>prop_budget\<close> is called with its
  defaults \<^verbatim>\<open>f_ullage=0.05\<close> and \<^verbatim>\<open>t_startup=1\<close>; unpacking a \<^verbatim>\<open>None\<close> from it would be a
  \<^verbatim>\<open>TypeError\<close>. \<^verbatim>\<open>engine.mass\<close> is read on line 112, after \<^verbatim>\<open>prop_budget\<close> has returned.
\<close>

definition margin_of_fracs ::
  "engine \<Rightarrow> npfloat \<Rightarrow> np_fracs \<Rightarrow> (npfloat \<times> npfloat \<times> npfloat) result" where
  "margin_of_fracs e mpl fracs =
     (case fracs of (pi_bo, pi_prop, pi_pl, pi_se) \<Rightarrow>
        let m0 = np_div mpl pi_pl;
            m_se = np_mul m0 pi_se;
            m_prop = np_mul (Fin pi_prop) m0;
            ne = np_ceil (np_div (np_mul (np_mul (Fin 1.2) m0) (Fin g)) (Fin (F e)))
        in
        bind_result (prop_budget_np m_prop e 0.05 1) (\<lambda>budget.
        case budget of
          None \<Rightarrow> Inl TypeError
        | Some (m_ox, m_f, v_ox, v_f, losses) \<Rightarrow>
            (case mass e of
               None \<Rightarrow> Inl AttributeError
             | Some dry \<Rightarrow>
                 let m_act = np_add (np_add (np_mul (np_add v_ox v_f) (Fin 12.16)) losses)
                               (np_mul (Fin dry) ne);
                     margin = np_sub (np_mul (np_div (np_sub m_se m_act) m_act) (Fin 100))
                                (Fin 15)
                 in Inr (margin, m0, ne))))"

definition get_margin ::
  "engine \<Rightarrow> npfloat \<Rightarrow> real \<Rightarrow> npfloat \<Rightarrow> (npfloat \<times> npfloat \<times> npfloat) result option" where
  "get_margin e mpl dv pi_se =
     (case repaired_fracs e dv pi_se of
        None \<Rightarrow> None
      | Some r \<Rightarrow> Some (bind_result r (margin_of_fracs e mpl)))"

subsection \<open>\<^verbatim>\<open>functions.py\<close>: \<^verbatim>\<open>size_vehicle\<close>\<close>

text \<open>
  The loop of lines 122 to 137. \<^verbatim>\<open>change\<close> starts at 1, so the body runs at least once and
  the loop is a do-while: one call of \<open>size_vehicle_loop\<close> is one pass through the body,
  followed by the test \<^verbatim>\<open>abs(change) >= 1e-6\<close>. On exit it hands back the two variables
  that line 139 reads: the last \<^verbatim>\<open>x1\<close> and the last \<^verbatim>\<open>margin\<close>, which is the value of
  \<^verbatim>\<open>get_margin\<close> at \<^verbatim>\<open>prev\<close>. The two margins are numpy scalars, so neither division of
  the body raises: a zero slope gives an infinite or NaN iterate and the loop goes on with
  it. Nothing bounds the number of passes.
\<close>

partial_function (option) size_vehicle_loop ::
  "engine \<Rightarrow> npfloat \<Rightarrow> real \<Rightarrow> npfloat \<Rightarrow>
   (npfloat \<times> (npfloat \<times> npfloat \<times> npfloat)) result option" where
  "size_vehicle_loop e mpl dv x1 =
     (let prev = x1;
          dx = np_mul (Fin (- 0.001)) x1;
          x2 = np_add x1 dx
      in
      case get_margin e mpl dv x1 of
        None \<Rightarrow> None
      | Some (Inl err) \<Rightarrow> Some (Inl err)
      | Some (Inr margin) \<Rightarrow>
          (case get_margin e mpl dv x2 of
             None \<Rightarrow> None
           | Some (Inl err) \<Rightarrow> Some (Inl err)
           | Some (Inr margin2) \<Rightarrow>
               (let m1 = fst margin;
                    m2 = fst margin2;
                    m = np_div (np_sub m2 m1) dx;
                    x1' = np_add (np_div (np_neg m1) m) x1;
                    change = np_sub x1' prev
                in
                if np_ge (np_abs change) (Fin 0.000001) then size_vehicle_loop e mpl dv x1'
                else Some (Inr (x1', margin)))))"

text \<open>
  Line 139, \<^verbatim>\<open>return get_margin(engine, mpl, dv, x1)[1], margin[2]\<close>: the first component
  is taken from a new call at the final \<^verbatim>\<open>x1\<close>, the second from the loop's \<^verbatim>\<open>margin\<close>.
\<close>

definition size_vehicle ::
  "npfloat \<Rightarrow> real \<Rightarrow> engine \<Rightarrow> (npfloat \<times> npfloat) result option" where
  "size_vehicle mpl dv e =
     (case size_vehicle_loop e mpl dv (Fin 0.01) of
        None \<Rightarrow> None
      | Some (Inl err) \<Rightarrow> Some (Inl err)
      | Some (Inr (x1, margin)) \<Rightarrow>
          (case get_margin e mpl dv x1 of
             None \<Rightarrow> None
           | Some (Inl err) \<Rightarrow> Some (Inl err)
           | Some (Inr final) \<Rightarrow> Some (Inr (fst (snd final), snd (snd margin)))))"

subsection \<open>\<^verbatim>\<open>functions.py\<close>: the sweep over the split fraction\<close>

text \<open>\<^verbatim>\<open>fs = np.linspace(0.1, 0.9, 100)\<close>: 100 samples, the step is \<open>(0.9 - 0.1) / 99\<close>.\<close>

definition fs :: "real list" where
  "fs = map (\<lambda>i. 0.1 + real i * ((0.9 - 0.1) / 99)) [0..<100]"

text \<open>
  The loop body makes two calls of \<^verbatim>\<open>size_vehicle\<close>. Their payload and delta-v arguments
  are named here, so that what each call receives can be stated: \<open>m2_call_args\<close> is the
  argument pair of \<^verbatim>\<open>m2 = size_vehicle(1000, v2, prop.rl10)\<close> and \<open>m1_call_args\<close> that of
  \<^verbatim>\<open>m1 = size_vehicle(m2[0], v1, prop.rl10)\<close>, with \<^verbatim>\<open>v1 = 9000*f\<close> and
  \<^verbatim>\<open>v2 = 9000*(1 - f)\<close>.
\<close>

definition m2_call_args :: "real \<Rightarrow> npfloat \<times> real" where
  "m2_call_args f = (let v2 = 9000 * (1 - f) in (Fin 1000, v2))"

definition m1_call_args :: "real \<Rightarrow> npfloat \<times> npfloat \<Rightarrow> npfloat \<times> real" where
  "m1_call_args f m2 = (let v1 = 9000 * f in (fst m2, v1))"

record sweep_lists =
  ms :: "npfloat list"
  v1s :: "real list"
  v2s :: "real list"
  nes :: "npfloat list"

definition sweep_body :: "engine \<Rightarrow> sweep_lists \<Rightarrow> real \<Rightarrow> sweep_lists result option" where
  "sweep_body e st f =
     (let v1 = 9000 * f;
          v2 = 9000 * (1 - f)
      in
      case (case m2_call_args f of (mpl, dv) \<Rightarrow> size_vehicle mpl dv e) of
        None \<Rightarrow> None
      | Some (Inl err) \<Rightarrow> Some (Inl err)
      | Some (Inr m2) \<Rightarrow>
          (case (case m1_call_args f m2 of (mpl, dv) \<Rightarrow> size_vehicle mpl dv e) of
             None \<Rightarrow> None
           | Some (Inl err) \<Rightarrow> Some (Inl err)
           | Some (Inr m1) \<Rightarrow>
               Some (Inr (st\<lparr>ms := ms st @ [fst m1],
                              nes := nes st @ [np_add (snd m1) (snd m2)],
                              v1s := v1s st @ [v1],
                              v2s := v2s st @ [v2]\<rparr>))))"

fun sweep_loop :: "engine \<Rightarrow> sweep_lists \<Rightarrow> real list \<Rightarrow> sweep_lists result option" where
  "sweep_loop e st [] = Some (Inr st)"
| "sweep_loop e st (f # rest) =
     (case sweep_body e st f of
        None \<Rightarrow> None
      | Some (Inl err) \<Rightarrow> Some (Inl err)
      | Some (Inr st') \<Rightarrow> sweep_loop e st' rest)"

definition sweep :: "sweep_lists result option" where
  "sweep =
     (case rl10 of
        Inl err \<Rightarrow> Some (Inl err)
      | Inr e \<Rightarrow> sweep_loop e \<lparr>ms = [], v1s = [], v2s = [], nes = []\<rparr> fs)"

subsection \<open>\<^verbatim>\<open>newtonraphson.py\<close>: \<^verbatim>\<open>newton_raphson\<close>\<close>

text \<open>
  \<^verbatim>\<open>func\<close> is called as \<^verbatim>\<open>func(args[0][0], args[0][1], x, args[0][2])\<close>; \<open>args\<close> below is
  the triple \<^verbatim>\<open>args[0]\<close>. It returns a tuple, as \<^verbatim>\<open>get_margin\<close> does, modelled as a list.
  A tuple longer than one is replaced by its first component; a shorter one is left as it
  is and makes the subtraction \<^verbatim>\<open>y2 - y1\<close> a \<^verbatim>\<open>TypeError\<close>. The guesses and the
  components of the tuple are finite Python floats, so a zero divisor raises.

  The console line printed before \<^verbatim>\<open>break\<close> is the value \<open>Unable_to_converge guess x1 y1\<close>.
\<close>

datatype message = Unable_to_converge real real real

partial_function (option) newton_raphson_loop ::
  "('a \<Rightarrow> 'b \<Rightarrow> real \<Rightarrow> 'c \<Rightarrow> real list result) \<Rightarrow> 'a \<times> 'b \<times> 'c \<Rightarrow> real \<Rightarrow> real \<Rightarrow> nat \<Rightarrow>
   (real \<times> message list) result option" where
  "newton_raphson_loop func args guess x1 n =
     (let prev = x1;
          dx = - 0.0001 * x1;
          x2 = x1 + dx
      in
      case func (fst args) (fst (snd args)) x1 (snd (snd args)) of
        Inl err \<Rightarrow> Some (Inl err)
      | Inr y1 \<Rightarrow>
          (case func (fst args) (fst (snd args)) x2 (snd (snd args)) of
             Inl err \<Rightarrow> Some (Inl err)
           | Inr y2 \<Rightarrow>
               if length y1 > 1 \<and> length y2 > 1 then
                 (let y1 = hd y1;
                      y2 = hd y2
                  in
                  case divide_checked (y2 - y1) dx of
                    Inl err \<Rightarrow> Some (Inl err)
                  | Inr m \<Rightarrow>
                      (case divide_checked (- y1) m of
                         Inl err \<Rightarrow> Some (Inl err)
                       | Inr q \<Rightarrow>
                           (let x1' = q + x1;
                                change = x1' - prev;
                                n' = n + 1
                            in
                            if m \<le> 0.001 then Some (Inr (x1', [Unable_to_converge guess x1' y1]))
                            else if \<bar>change\<bar> \<ge> 0.000001
                              then newton_raphson_loop func args guess x1' n'
                            else Some (Inr (x1', [])))))
               else Some (Inl TypeError)))"

text \<open>The \<^verbatim>\<open>for x1 in guesses\<close> loop: the roots found so far and the lines printed so far.\<close>

fun newton_raphson_guesses ::
  "('a \<Rightarrow> 'b \<Rightarrow> real \<Rightarrow> 'c \<Rightarrow> real list result) \<Rightarrow> 'a \<times> 'b \<times> 'c \<Rightarrow> real list \<Rightarrow>
   real list \<Rightarrow> message list \<Rightarrow> (real list \<times> message list) result option" where
  "newton_raphson_guesses func args [] roots out = Some (Inr (roots, out))"
| "newton_raphson_guesses func args (x1 # guesses) roots out =
     (case newton_raphson_loop func args x1 x1 0 of
        None \<Rightarrow> None
      | Some (Inl err) \<Rightarrow> Some (Inl err)
      | Some (Inr (x, printed)) \<Rightarrow>
          newton_raphson_guesses func args guesses (roots @ [x]) (out @ printed))"

definition newton_raphson ::
  "('a \<Rightarrow> 'b \<Rightarrow> real \<Rightarrow> 'c \<Rightarrow> real list result) \<Rightarrow> real list \<Rightarrow> 'a \<times> 'b \<times> 'c \<Rightarrow>
   (real list \<times> message list) result option" where
  "newton_raphson func guesses args = newton_raphson_guesses func args guesses [] []"

subsection \<open>A test engine\<close>

text \<open>
  The \<^verbatim>\<open>Engine\<close> object of \<^verbatim>\<open>prop.rl10\<close> (thrust 110.1 kN, specific impulse 465.5 s, liquid
  hydrogen and oxygen at mixture ratio 6, the mass flow rate that the constructor derives)
  after the assignment \<^verbatim>\<open>engine.mass = 30.5075\<close>.
\<close>

definition rl10_light :: engine where
  "rl10_light =
     \<lparr>F = 110100, isp = 465.5, mass = Some 30.5075, ox = lox, fuel = lh2, MR = 6.0,
      mdot = 110100 / (465.5 * g)\<rparr>"

section \<open>Properties\<close>

subsection \<open>Arithmetic on finite numbers\<close>

text \<open>
  On finite operands the operations of \<open>npfloat\<close> are those of the reals, up to the sign
  of a zero result.
\<close>

lemma np_sub_Fin [simp]: "np_sub (Fin a) (Fin b) = Fin (a - b)"
  by (simp add: np_sub_def)

lemma np_mul_Fin:
  "np_mul (Fin a) (Fin b) =
     (if a = 0 \<or> b = 0 then signed_zero ((a < 0) \<noteq> (b < 0)) else Fin (a * b))"
  by (simp add: np_mul_def)

lemma np_div_Fin:
  "np_div (Fin a) (Fin b) =
     (if b = 0 then (if a = 0 then NaN else signed_inf (a < 0))
      else if a = 0 then signed_zero (b < 0)
      else Fin (a / b))"
  by (simp add: np_div_def)

lemma np_mul_Fin_nonneg: "0 \<le> a \<Longrightarrow> 0 \<le> b \<Longrightarrow> np_mul (Fin a) (Fin b) = Fin (a * b)"
  by (auto simp add: np_mul_Fin signed_zero_def)

lemma np_mul_Fin_pos_right: "0 < b \<Longrightarrow> np_mul (Fin a) (Fin b) = Fin (a * b)"
  by (auto simp add: np_mul_Fin signed_zero_def)

lemma np_mul_Fin_pos_left: "0 < a \<Longrightarrow> np_mul (Fin a) (Fin b) = Fin (a * b)"
  by (auto simp add: np_mul_Fin signed_zero_def)

lemma np_div_Fin_pos: "0 < b \<Longrightarrow> np_div (Fin a) (Fin b) = Fin (a / b)"
  by (auto simp add: np_div_Fin signed_zero_def)

lemma np_ceil_Fin_nonneg: "0 \<le> x \<Longrightarrow> np_ceil (Fin x) = Fin (real_of_int \<lceil>x\<rceil>)"
  by simp

lemma np_gt_Fin [simp]: "np_gt (Fin a) (Fin b) = (a > b)"
  by simp

lemma np_ge_Fin [simp]: "np_ge (Fin a) (Fin b) = (a \<ge> b)"
  by simp

subsection \<open>\<^verbatim>\<open>mass_fractions\<close>\<close>

lemma g_pos: "0 < g"
  by (simp add: g_def)

lemma mass_fractions_eq:
  "I \<noteq> 0 \<Longrightarrow>
   mass_fractions I dv pi_se =
     (if pi_se > exp (- dv / (I * g)) then Inr None
      else Inr (Some (exp (- dv / (I * g)), 1 - exp (- dv / (I * g)),
                      exp (- dv / (I * g)) - pi_se, pi_se)))"
  using g_pos by (simp add: mass_fractions_def bind_result_def divide_checked_def Let_def)

text \<open>
  C1. For \<open>isp > 0\<close>, \<open>dv \<ge> 0\<close> and \<open>0 < pi_se < exp (- dv / (isp * g))\<close>,
  \<^verbatim>\<open>mass_fractions\<close> returns a fraction set with \<open>pi_bo = exp (- dv / (isp * g))\<close>,
  \<open>pi_pl = pi_bo - pi_se\<close> and \<open>pi_prop = 1 - pi_bo\<close>; the three fractions lie in
  \<open>[0, 1]\<close> and \<open>pi_se + pi_prop + pi_pl = 1\<close>.
\<close>

theorem mass_fractions_feasible:
  assumes "0 < I" and "0 \<le> dv" and "0 < pi_se" and "pi_se < exp (- dv / (I * g))"
  shows "let pi_bo = exp (- dv / (I * g));
             pi_pl = pi_bo - pi_se;
             pi_prop = 1 - pi_bo
         in mass_fractions I dv pi_se = Inr (Some (pi_bo, pi_prop, pi_pl, pi_se)) \<and>
            0 \<le> pi_bo \<and> pi_bo \<le> 1 \<and> 0 \<le> pi_prop \<and> pi_prop \<le> 1 \<and>
            0 \<le> pi_pl \<and> pi_pl \<le> 1 \<and> pi_se + pi_prop + pi_pl = 1"
proof -
  let ?b = "exp (- dv / (I * g))"
  have "dv / (I * g) \<ge> 0"
    using assms g_pos by simp
  then have b1: "?b \<le> 1"
    by simp
  have b0: "0 < ?b"
    by simp
  have eq: "mass_fractions I dv pi_se = Inr (Some (?b, 1 - ?b, ?b - pi_se, pi_se))"
    using assms by (simp add: mass_fractions_eq)
  have pl: "0 \<le> ?b - pi_se" "?b - pi_se \<le> 1"
    using assms b1 by linarith+
  have pp: "0 \<le> 1 - ?b" "1 - ?b \<le> 1"
    using b0 b1 by linarith+
  have b0': "0 \<le> ?b"
    by simp
  have total: "pi_se + (1 - ?b) + (?b - pi_se) = 1"
    by simp
  show ?thesis
    unfolding Let_def using eq b0' b1 pl pp total by blast
qed

theorem mass_fractions_feasible_witness:
  "mass_fractions 1 0 (1 / 2) = Inr (Some (1, 0, 1 / 2, 1 / 2))"
proof -
  have "(1 / 2 :: real) < exp (- 0 / (1 * g))"
    by simp
  from mass_fractions_feasible [of 1 0 "1 / 2", OF _ _ _ this]
  show ?thesis
    by (simp add: Let_def)
qed

subsection \<open>The feasibility test of \<^verbatim>\<open>mass_fractions\<close>\<close>

text \<open>
  C3, as the specification states it: for \<open>isp > 0\<close> and \<open>dv \<ge> 0\<close>, \<^verbatim>\<open>mass_fractions\<close>
  returns the infeasible result whenever \<open>pi_se \<ge> exp (- dv / (isp * g))\<close>, equality
  included. The source tests \<^verbatim>\<open>pi_se > pi_bo\<close>: at \<open>isp = 1\<close>, \<open>dv = 0\<close>, \<open>pi_se = 1\<close> the
  burnout fraction is \<open>exp 0 = 1 = pi_se\<close>, and the function returns the fraction set
  \<open>(1, 0, 0, 1)\<close>, not \<^verbatim>\<open>None\<close>.
\<close>

theorem mass_fractions_boundary_counterexample:
  "(1::real) \<ge> exp (- 0 / (1 * g)) \<and> mass_fractions 1 0 1 = Inr (Some (1, 0, 0, 1)) \<and>
   mass_fractions 1 0 1 \<noteq> Inr None"
  by (simp add: mass_fractions_eq)

text \<open>
  C3, amended: for \<open>isp > 0\<close> and \<open>dv \<ge> 0\<close>, \<^verbatim>\<open>mass_fractions\<close> returns the infeasible
  result exactly when \<open>pi_se\<close> is strictly greater than \<open>exp (- dv / (isp * g))\<close>; for every
  other \<open>pi_se\<close> it returns the fraction set \<open>(pi_bo, 1 - pi_bo, pi_bo - pi_se, pi_se)\<close>, and
  at \<open>pi_se = exp (- dv / (isp * g))\<close> that set has \<open>pi_pl = 0\<close>.
\<close>

theorem mass_fractions_infeasible_iff:
  assumes "0 < I" and "0 \<le> dv"
  shows "(mass_fractions I dv pi_se = Inr None) = (pi_se > exp (- dv / (I * g))) \<and>
         mass_fractions I dv pi_se =
           (if pi_se > exp (- dv / (I * g)) then Inr None
            else Inr (Some (exp (- dv / (I * g)), 1 - exp (- dv / (I * g)),
                            exp (- dv / (I * g)) - pi_se, pi_se))) \<and>
         mass_fractions I dv (exp (- dv / (I * g))) =
           Inr (Some (exp (- dv / (I * g)), 1 - exp (- dv / (I * g)), 0,
                      exp (- dv / (I * g))))"
  using assms by (simp add: mass_fractions_eq)

theorem mass_fractions_infeasible_iff_witness:
  "mass_fractions 1 0 2 = Inr None \<and> mass_fractions 1 0 1 = Inr (Some (1, 0, 0, 1)) \<and>
   mass_fractions 1 0 (1 / 2) = Inr (Some (1, 0, 1 / 2, 1 / 2))"
  using mass_fractions_infeasible_iff [of 1 0 2] mass_fractions_infeasible_iff [of 1 0 1]
    mass_fractions_infeasible_iff [of 1 0 "1 / 2"]
  by simp

subsection \<open>\<^verbatim>\<open>mass_fractions\<close> on a numpy trial fraction\<close>

text \<open>
  The same case distinction for any trial fraction, finite or not: a NaN is never greater
  than \<open>pi_bo\<close>, so it is accepted.
\<close>

lemma mass_fractions_np_eq:
  "I \<noteq> 0 \<Longrightarrow>
   mass_fractions_np I dv p =
     (if np_gt p (Fin (exp (- dv / (I * g)))) then Inr None
      else Inr (Some (exp (- dv / (I * g)), 1 - exp (- dv / (I * g)),
                      np_sub (Fin (exp (- dv / (I * g)))) p, p)))"
  using g_pos by (simp add: mass_fractions_np_def bind_result_def divide_checked_def Let_def)

text \<open>On a finite trial fraction the two embeddings of lines 18 to 28 agree.\<close>

lemma mass_fractions_np_Fin:
  "mass_fractions_np I dv (Fin x) =
     (case mass_fractions I dv x of
        Inl err \<Rightarrow> Inl err
      | Inr None \<Rightarrow> Inr None
      | Inr (Some (pi_bo, pi_prop, pi_pl, pi_se)) \<Rightarrow>
          Inr (Some (pi_bo, pi_prop, Fin pi_pl, Fin pi_se)))"
  by (simp add: mass_fractions_np_def mass_fractions_def bind_result_def divide_checked_def
      Let_def)

subsection \<open>The repair loop of \<^verbatim>\<open>get_margin\<close>\<close>

text \<open>
  If the \<open>n+1\<close>-th halving is the first feasible one, the loop returns the fraction set
  there. Induction on the number of halvings, the trial fraction generalised.
\<close>

lemma halve_loop_steps:
  assumes "I \<noteq> 0"
  shows "p / 2 ^ Suc n \<le> exp (- dv / (I * g)) \<Longrightarrow>
         (\<And>k. k < n \<Longrightarrow> exp (- dv / (I * g)) < p / 2 ^ Suc k) \<Longrightarrow>
         halve_loop I dv (Fin p) =
           Some (Inr (exp (- dv / (I * g)), 1 - exp (- dv / (I * g)),
                      Fin (exp (- dv / (I * g)) - p / 2 ^ Suc n), Fin (p / 2 ^ Suc n)))"
proof (induction n arbitrary: p)
  case 0
  then show ?case
    using assms
    by (subst halve_loop.simps) (simp add: mass_fractions_np_eq np_div_Fin_pos)
next
  case (Suc n)
  let ?b = "exp (- dv / (I * g))"
  have "?b < p / 2 ^ Suc 0"
    using Suc.prems(2) [of 0] by simp
  then have inf: "mass_fractions_np I dv (Fin (p / 2)) = Inr None"
    using assms by (simp add: mass_fractions_np_eq)
  have a: "(p / 2) / 2 ^ Suc n \<le> ?b"
    using Suc.prems(1) by simp
  have b: "?b < (p / 2) / 2 ^ Suc k" if "k < n" for k
    using Suc.prems(2) [of "Suc k"] that by simp
  have "halve_loop I dv (Fin (p / 2)) =
          Some (Inr (?b, 1 - ?b, Fin (?b - (p / 2) / 2 ^ Suc n), Fin ((p / 2) / 2 ^ Suc n)))"
    using Suc.IH [OF a b] by blast
  then show ?case
    by (subst halve_loop.simps) (simp add: inf np_div_Fin_pos)
qed

text \<open>
A positive bound is reached by halving: \<open>2 ^ n\<close> outgrows any real.
\<close>

lemma halving_reaches:
  fixes b p :: real
  assumes "0 < b"
  shows "\<exists>n. p / 2 ^ n \<le> b"
proof -
  obtain n where "p / b < 2 ^ n"
    using real_arch_pow [of 2 "p / b"] by auto
  then have "p < 2 ^ n * b"
    using assms by (simp add: divide_less_eq)
  then have "p / 2 ^ n \<le> b"
    by (simp add: divide_le_eq mult.commute)
  then show ?thesis ..
qed

text \<open>
  The burnout fraction is an exponential, hence positive; so for a finite trial fraction
  lines 97 to 103 always end, after the least number \<open>n\<close> of halvings that makes it
  feasible.
\<close>

lemma repaired_fracs_steps:
  assumes "isp e \<noteq> 0"
  shows "\<exists>n. repaired_fracs e dv (Fin pi_se) =
               Some (Inr (exp (- dv / (isp e * g)), 1 - exp (- dv / (isp e * g)),
                          Fin (exp (- dv / (isp e * g)) - pi_se / 2 ^ n),
                          Fin (pi_se / 2 ^ n))) \<and>
             pi_se / 2 ^ n \<le> exp (- dv / (isp e * g)) \<and>
             (\<forall>k<n. exp (- dv / (isp e * g)) < pi_se / 2 ^ k)"
proof -
  let ?b = "exp (- dv / (isp e * g))"
  define n where "n = (LEAST n. pi_se / 2 ^ n \<le> ?b)"
  have ex: "\<exists>n. pi_se / 2 ^ n \<le> ?b"
    by (rule halving_reaches) simp
  have le: "pi_se / 2 ^ n \<le> ?b"
    unfolding n_def using ex by (rule LeastI_ex)
  have gt: "?b < pi_se / 2 ^ k" if "k < n" for k
    using not_less_Least [of k "\<lambda>n. pi_se / 2 ^ n \<le> ?b"] that
    unfolding n_def by auto
  have "repaired_fracs e dv (Fin pi_se) =
          Some (Inr (?b, 1 - ?b, Fin (?b - pi_se / 2 ^ n), Fin (pi_se / 2 ^ n)))"
  proof (cases n)
    case 0
    then show ?thesis
      using le assms by (simp add: repaired_fracs_def mass_fractions_np_eq)
  next
    case (Suc m)
    have "?b < pi_se / 2 ^ 0"
      using gt [of 0] Suc by blast
    then have inf: "mass_fractions_np (isp e) dv (Fin pi_se) = Inr None"
      using assms by (simp add: mass_fractions_np_eq)
    have le': "pi_se / 2 ^ Suc m \<le> ?b"
      using le Suc by simp
    have gt': "?b < pi_se / 2 ^ Suc k" if "k < m" for k
      using gt [of "Suc k"] that Suc by simp
    have "halve_loop (isp e) dv (Fin pi_se) =
            Some (Inr (?b, 1 - ?b, Fin (?b - pi_se / 2 ^ Suc m), Fin (pi_se / 2 ^ Suc m)))"
      using halve_loop_steps [OF assms le' gt'] by blast
    then show ?thesis
      by (simp add: repaired_fracs_def inf Suc)
  qed
  then show ?thesis
    using le gt by blast
qed

text \<open>
  C8. For an engine with \<open>isp > 0\<close>, \<open>dv \<ge> 0\<close> and a strictly positive trial fraction
  \<open>pi_se\<close>, the repair loop of \<^verbatim>\<open>get_margin\<close> ends after finitely many halvings \<open>n\<close> with a
  feasible fraction \<open>pi_se / 2 ^ n\<close>: it is positive and at most the burnout fraction
  \<open>exp (- dv / (isp * g))\<close>, every earlier trial was above it, and \<^verbatim>\<open>get_margin\<close> itself
  returns (a value or an error, never a loop without end).
\<close>

theorem repair_loop_terminates:
  assumes "0 < isp e" and "0 \<le> dv" and "0 < pi_se"
  shows "\<exists>n. repaired_fracs e dv (Fin pi_se) =
               Some (Inr (exp (- dv / (isp e * g)), 1 - exp (- dv / (isp e * g)),
                          Fin (exp (- dv / (isp e * g)) - pi_se / 2 ^ n),
                          Fin (pi_se / 2 ^ n))) \<and>
             0 < pi_se / 2 ^ n \<and> pi_se / 2 ^ n \<le> exp (- dv / (isp e * g)) \<and>
             (\<forall>k<n. exp (- dv / (isp e * g)) < pi_se / 2 ^ k) \<and>
             (\<exists>r. get_margin e mpl dv (Fin pi_se) = Some r)"
proof -
  have "isp e \<noteq> 0"
    using assms(1) by simp
  from repaired_fracs_steps [OF this, of dv pi_se]
  obtain n where n:
    "repaired_fracs e dv (Fin pi_se) =
       Some (Inr (exp (- dv / (isp e * g)), 1 - exp (- dv / (isp e * g)),
                  Fin (exp (- dv / (isp e * g)) - pi_se / 2 ^ n), Fin (pi_se / 2 ^ n)))"
    "pi_se / 2 ^ n \<le> exp (- dv / (isp e * g))"
    "\<forall>k<n. exp (- dv / (isp e * g)) < pi_se / 2 ^ k"
    by blast
  have pos: "0 < pi_se / 2 ^ n"
    using assms(3) by simp
  have "\<exists>r. get_margin e mpl dv (Fin pi_se) = Some r"
    by (simp add: get_margin_def n(1))
  then show ?thesis
    using n pos by blast
qed

theorem repair_loop_terminates_witness:
  "repaired_fracs \<lparr>F = 1, isp = 1, mass = None, ox = lox, fuel = lh2, MR = 1, mdot = 1\<rparr> 0
     (Fin 3) = Some (Inr (1, 0, Fin (1 / 4), Fin (3 / 4)))"
proof -
  let ?e = "\<lparr>F = 1, isp = 1, mass = None, ox = lox, fuel = lh2, MR = 1, mdot = 1\<rparr>"
  have "0 < isp ?e" "(0::real) \<le> 0" "(0::real) < 3"
    by simp_all
  from repair_loop_terminates [OF this]
  obtain n :: nat where n:
    "repaired_fracs ?e 0 (Fin 3) = Some (Inr (1, 0, Fin (1 - 3 / 2 ^ n), Fin (3 / 2 ^ n)))"
    "(3::real) / 2 ^ n \<le> 1" "\<forall>k<n. (1::real) < 3 / 2 ^ k"
    by auto
  have "\<not> n < 2"
  proof
    assume "n < 2"
    then have "n = 0 \<or> n = 1"
      by auto
    then show False
      using n(2) by auto
  qed
  moreover have "\<not> 2 < n"
  proof
    assume "2 < n"
    then have "(1::real) < 3 / 2 ^ 2"
      using n(3) by blast
    then show False
      by simp
  qed
  ultimately have "n = 2"
    by simp
  then show ?thesis
    using n(1) by simp
qed

subsection \<open>\<^verbatim>\<open>prop_budget\<close>\<close>

text \<open>
  With no zero divisor (\<open>MR \<noteq> -1\<close>, both densities nonzero) and an ullage fraction below
  one, \<^verbatim>\<open>prop_budget\<close> returns its five values.
\<close>

lemma prop_budget_eq:
  assumes "MR e + 1 \<noteq> 0" and "rho (ox e) \<noteq> 0" and "rho (fuel e) \<noteq> 0" and "f_ullage < 1"
  shows "prop_budget m_prop e f_ullage t =
           Inr (Some (MR e * m_prop / (MR e + 1),
                      m_prop / (MR e + 1),
                      ((MR e * m_prop / (MR e + 1) + mdot e * t * 2 * MR e / (MR e + 1))
                         / rho (ox e)) / (1 - f_ullage),
                      ((m_prop / (MR e + 1) + mdot e * t * 2 / (MR e + 1))
                         / rho (fuel e)) / (1 - f_ullage),
                      mdot e * t * 2 / (MR e + 1) + mdot e * t * 2 * MR e / (MR e + 1)))"
  using assms by (simp add: prop_budget_def bind_result_def divide_checked_def)

text \<open>
  C6. For \<open>m_prop \<ge> 0\<close>, an engine with \<open>MR > 0\<close>, an ullage fraction in \<open>[0, 1)\<close> and a
  startup time \<open>t\<close>, \<^verbatim>\<open>prop_budget\<close> returns \<open>m_ox = MR * m_prop / (MR + 1)\<close>,
  \<open>m_f = m_prop / (MR + 1)\<close>, the volumes
  \<open>((m_ox + mdot * t * 2 * MR / (MR + 1)) / rho_ox) / (1 - f_ullage)\<close> and
  \<open>((m_f + mdot * t * 2 / (MR + 1)) / rho_fuel) / (1 - f_ullage)\<close>, and the sum of the two
  startup masses; with \<open>f_ullage = 0\<close> each volume is \<open>(mass + startup mass) / density\<close>.
  The densities, by which the formulas divide, are taken nonzero.
\<close>

theorem prop_budget_formulas:
  assumes "0 \<le> m_prop" and "0 < MR e" and "0 \<le> f_ullage" and "f_ullage < 1"
    and "rho (ox e) \<noteq> 0" and "rho (fuel e) \<noteq> 0"
  shows "let m_ox = MR e * m_prop / (MR e + 1);
             m_f = m_prop / (MR e + 1);
             m_ox_startup = mdot e * t * 2 * MR e / (MR e + 1);
             m_fuel_startup = mdot e * t * 2 / (MR e + 1)
         in prop_budget m_prop e f_ullage t =
              Inr (Some (m_ox, m_f,
                         ((m_ox + m_ox_startup) / rho (ox e)) / (1 - f_ullage),
                         ((m_f + m_fuel_startup) / rho (fuel e)) / (1 - f_ullage),
                         m_fuel_startup + m_ox_startup)) \<and>
            (f_ullage = 0 \<longrightarrow>
               prop_budget m_prop e f_ullage t =
                 Inr (Some (m_ox, m_f,
                            (m_ox + m_ox_startup) / rho (ox e),
                            (m_f + m_fuel_startup) / rho (fuel e),
                            m_fuel_startup + m_ox_startup)))"
proof -
  have "MR e + 1 \<noteq> 0"
    using assms(2) by simp
  note eq = prop_budget_eq [OF this assms(5) assms(6) assms(4), of m_prop t]
  show ?thesis
    unfolding Let_def eq by auto
qed

theorem prop_budget_formulas_witness:
  "prop_budget 2 \<lparr>F = 1, isp = 1, mass = None, ox = \<lparr>rho = 2, T = 90\<rparr>,
                   fuel = \<lparr>rho = 4, T = 20\<rparr>, MR = 1, mdot = 1\<rparr> 0 1 =
     Inr (Some (1, 1, 1, 1 / 2, 2)) \<and>
   prop_budget 2 \<lparr>F = 1, isp = 1, mass = None, ox = \<lparr>rho = 2, T = 90\<rparr>,
                   fuel = \<lparr>rho = 4, T = 20\<rparr>, MR = 1, mdot = 1\<rparr> (1 / 2) 1 =
     Inr (Some (1, 1, 2, 1, 2))"
  using prop_budget_formulas
      [of 2 "\<lparr>F = 1, isp = 1, mass = None, ox = \<lparr>rho = 2, T = 90\<rparr>,
               fuel = \<lparr>rho = 4, T = 20\<rparr>, MR = 1, mdot = 1\<rparr>" 0 1]
    prop_budget_formulas
      [of 2 "\<lparr>F = 1, isp = 1, mass = None, ox = \<lparr>rho = 2, T = 90\<rparr>,
               fuel = \<lparr>rho = 4, T = 20\<rparr>, MR = 1, mdot = 1\<rparr>" "1 / 2" 1]
  by (simp add: Let_def)

subsection \<open>\<^verbatim>\<open>prop_budget\<close> on a numpy propellant mass\<close>

text \<open>
  Called with a numpy propellant mass, \<^verbatim>\<open>prop_budget\<close> raises only where \<open>MR + 1 = 0\<close>;
  otherwise it returns five values, finite or not.
\<close>

lemma prop_budget_np_raises:
  assumes "MR e + 1 = 0" and "f_ullage < 1"
  shows "prop_budget_np m_prop e f_ullage t = Inl ZeroDivision"
  using assms by (simp add: prop_budget_np_def bind_result_def py_div_def)

lemma prop_budget_np_returns:
  assumes "MR e + 1 \<noteq> 0" and "f_ullage < 1"
  shows "\<exists>budget. prop_budget_np m_prop e f_ullage t = Inr (Some budget)"
  using assms by (simp add: prop_budget_np_def bind_result_def py_div_def Let_def)

text \<open>
  For a finite propellant mass and positive mixture ratio, densities and startup time the
  five values are those of the formulas over the reals.
\<close>

lemma prop_budget_np_Fin:
  assumes "0 < MR e" and "0 < rho (ox e)" and "0 < rho (fuel e)" and "f_ullage < 1"
    and "0 < t"
  shows "prop_budget_np (Fin m_prop) e f_ullage t =
           Inr (Some (Fin (MR e * m_prop / (MR e + 1)),
                      Fin (m_prop / (MR e + 1)),
                      Fin (((MR e * m_prop / (MR e + 1) + mdot e * t * 2 * MR e / (MR e + 1))
                         / rho (ox e)) / (1 - f_ullage)),
                      Fin (((m_prop / (MR e + 1) + mdot e * t * 2 / (MR e + 1))
                         / rho (fuel e)) / (1 - f_ullage)),
                      Fin (mdot e * t * 2 / (MR e + 1) + mdot e * t * 2 * MR e / (MR e + 1))))"
proof -
  have mr: "0 < MR e + 1"
    using assms(1) by simp
  have u: "0 < 1 - f_ullage"
    using assms(4) by simp
  have two: "(0::real) < 2"
    by simp
  show ?thesis
    unfolding prop_budget_np_def
    using assms(4) mr
    by (simp add: bind_result_def py_div_def Let_def
        np_mul_Fin_pos_right [OF assms(5)] np_mul_Fin_pos_right [OF two]
        np_mul_Fin_pos_right [OF assms(1)] np_mul_Fin_pos_left [OF assms(1)]
        np_div_Fin_pos [OF mr] np_div_Fin_pos [OF assms(2)] np_div_Fin_pos [OF assms(3)]
        np_div_Fin_pos [OF u])
qed

subsection \<open>\<^verbatim>\<open>get_margin\<close> after the repair\<close>

text \<open>
Without the attribute \<^verbatim>\<open>mass\<close>, lines 104 to 115 end in an error whatever happens.
\<close>

lemma margin_of_fracs_no_mass:
  assumes "mass e = None"
  shows "\<exists>err. margin_of_fracs e mpl fr = Inl err"
proof (cases fr)
  case (fields pi_bo pi_prop pi_pl pi_se)
  show ?thesis
    unfolding fields margin_of_fracs_def bind_result_def Let_def
    using assms by (auto split: sum.splits option.splits prod.splits)
qed

text \<open>
  C2. For a feasible trial fraction \<open>0 < pi_se < pi_bo\<close>, \<^verbatim>\<open>get_margin\<close> returns
  \<open>(margin, m0, ne)\<close> with \<open>m0 = mpl / pi_pl\<close>, \<open>m_se = m0 * pi_se\<close>,
  \<open>ne = ceil (1.2 * m0 * g / F)\<close>,
  \<open>m_act = 12.16 * (v_ox + v_f) + losses + mass * ne\<close> and
  \<open>margin = (m_se - m_act) / m_act * 100 - 15\<close>, where \<open>v_ox\<close>, \<open>v_f\<close> and \<open>losses\<close> are what
  \<^verbatim>\<open>prop_budget\<close> returns for \<open>m_prop = pi_prop * m0\<close> with its default arguments. The
  engine is one of the data model: positive thrust, specific impulse, mixture ratio, mass
  flow rate and densities, and a dry mass that is present and not negative; the payload
  mass and the delta-v are not negative. Then \<open>m_act\<close> is positive, every value is finite
  and no division fails.
\<close>

theorem get_margin_formulas:
  assumes "0 < F e" and "0 < isp e" and "0 < MR e" and "0 < mdot e"
    and "0 < rho (ox e)" and "0 < rho (fuel e)" and "mass e = Some dry" and "0 \<le> dry"
    and "0 \<le> mpl" and "0 \<le> dv" and "0 < pi_se" and "pi_se < exp (- dv / (isp e * g))"
  shows "let pi_bo = exp (- dv / (isp e * g));
             pi_pl = pi_bo - pi_se;
             pi_prop = 1 - pi_bo;
             m0 = mpl / pi_pl;
             m_se = m0 * pi_se;
             m_prop = pi_prop * m0;
             ne = real_of_int \<lceil>1.2 * m0 * g / F e\<rceil>
         in
         case prop_budget m_prop e 0.05 1 of
           Inr (Some (m_ox, m_f, v_ox, v_f, losses)) \<Rightarrow>
             (let m_act = 12.16 * (v_ox + v_f) + losses + dry * ne
              in m_act \<noteq> 0 \<and>
                 get_margin e (Fin mpl) dv (Fin pi_se) =
                   Some (Inr (Fin ((m_se - m_act) / m_act * 100 - 15), Fin m0, Fin ne)))
         | _ \<Rightarrow> False"
proof -
  let ?b = "exp (- dv / (isp e * g))"
  define m0 where "m0 = mpl / (?b - pi_se)"
  define ne where "ne = real_of_int \<lceil>1.2 * m0 * g / F e\<rceil>"
  define m_prop where "m_prop = (1 - ?b) * m0"
  have "0 \<le> dv / (isp e * g)"
    using assms(2) assms(10) g_pos by simp
  then have b1: "?b \<le> 1"
    by simp
  then have pp: "0 \<le> 1 - ?b"
    by simp
  have pl: "0 < ?b - pi_se"
    using assms(12) by simp
  have m0: "0 \<le> m0"
    unfolding m0_def using assms(9) pl by simp
  have q: "0 \<le> 1.2 * m0 * g / F e"
    using m0 g_pos assms(1) by simp
  then have ne: "0 \<le> ne"
    unfolding ne_def by simp
  have mp: "0 \<le> m_prop"
    unfolding m_prop_def using m0 b1 by simp
  have mr: "MR e + 1 \<noteq> 0" and ro: "rho (ox e) \<noteq> 0" and rf: "rho (fuel e) \<noteq> 0"
    using assms(3) assms(5) assms(6) by simp_all
  have lt: "(0.05 :: real) < 1" and one: "(0::real) < 1"
    by simp_all
  define v_ox where
    "v_ox = ((MR e * m_prop / (MR e + 1) + mdot e * 1 * 2 * MR e / (MR e + 1)) / rho (ox e))
              / (1 - 0.05)"
  define v_f where
    "v_f = ((m_prop / (MR e + 1) + mdot e * 1 * 2 / (MR e + 1)) / rho (fuel e)) / (1 - 0.05)"
  define losses where
    "losses = mdot e * 1 * 2 / (MR e + 1) + mdot e * 1 * 2 * MR e / (MR e + 1)"
  have pb: "prop_budget m_prop e 0.05 1 =
              Inr (Some (MR e * m_prop / (MR e + 1), m_prop / (MR e + 1), v_ox, v_f, losses))"
    unfolding v_ox_def v_f_def losses_def by (rule prop_budget_eq [OF mr ro rf lt])
  have pbn: "prop_budget_np (Fin m_prop) e 0.05 1 =
               Inr (Some (Fin (MR e * m_prop / (MR e + 1)), Fin (m_prop / (MR e + 1)),
                          Fin v_ox, Fin v_f, Fin losses))"
    unfolding v_ox_def v_f_def losses_def
    by (rule prop_budget_np_Fin [OF assms(3) assms(5) assms(6) lt one])
  have vox: "0 \<le> v_ox"
    unfolding v_ox_def using mp assms(3) assms(4) assms(5) by simp
  have vf: "0 \<le> v_f"
    unfolding v_f_def using mp assms(3) assms(4) assms(6) by simp
  have "losses = (mdot e * 2 + mdot e * 2 * MR e) / (MR e + 1)"
    unfolding losses_def by (simp add: add_divide_distrib)
  also have "\<dots> = 2 * mdot e * (MR e + 1) / (MR e + 1)"
    by (simp add: algebra_simps)
  also have "\<dots> = 2 * mdot e"
    by (rule nonzero_mult_div_cancel_right [OF mr])
  finally have "losses = 2 * mdot e" .
  then have lo: "0 < losses"
    using assms(4) by simp
  have dn: "0 \<le> dry * ne"
    using assms(8) ne by simp
  have tk: "0 \<le> (v_ox + v_f) * 12.16"
    using vox vf by simp
  define m_act where "m_act = (v_ox + v_f) * 12.16 + losses + dry * ne"
  have act_pos: "0 < m_act"
    unfolding m_act_def by (rule add_pos_nonneg [OF add_nonneg_pos [OF tk lo] dn])
  then have act: "m_act \<noteq> 0"
    by simp
  have fr: "repaired_fracs e dv (Fin pi_se) =
              Some (Inr (?b, 1 - ?b, Fin (?b - pi_se), Fin pi_se))"
    using assms(2) assms(12) by (simp add: repaired_fracs_def mass_fractions_np_eq)
  have n_m0: "np_div (Fin mpl) (Fin (?b - pi_se)) = Fin m0"
    unfolding m0_def by (rule np_div_Fin_pos [OF pl])
  have n_mse: "np_mul (Fin m0) (Fin pi_se) = Fin (m0 * pi_se)"
    by (rule np_mul_Fin_pos_right [OF assms(11)])
  have n_mprop: "np_mul (Fin (1 - ?b)) (Fin m0) = Fin m_prop"
    unfolding m_prop_def by (rule np_mul_Fin_nonneg [OF pp m0])
  have c12: "(0::real) < 1.2" and c1216: "(0::real) < 12.16" and c100: "(0::real) < 100"
    by simp_all
  have "np_div (np_mul (np_mul (Fin 1.2) (Fin m0)) (Fin g)) (Fin (F e)) =
          Fin (1.2 * m0 * g / F e)"
    by (simp only: np_mul_Fin_pos_left [OF c12] np_mul_Fin_pos_right [OF g_pos]
        np_div_Fin_pos [OF assms(1)])
  then have n_ne: "np_ceil (np_div (np_mul (np_mul (Fin 1.2) (Fin m0)) (Fin g)) (Fin (F e))) =
          Fin ne"
    unfolding ne_def by (simp only: np_ceil_Fin_nonneg [OF q])
  have n_act: "np_add (np_add (np_mul (np_add (Fin v_ox) (Fin v_f)) (Fin 12.16)) (Fin losses))
                 (np_mul (Fin dry) (Fin ne)) = Fin m_act"
    unfolding m_act_def
    by (simp only: np_add.simps np_mul_Fin_pos_right [OF c1216]
        np_mul_Fin_nonneg [OF assms(8) ne])
  have n_margin: "np_sub (np_mul (np_div (np_sub (Fin (m0 * pi_se)) (Fin m_act)) (Fin m_act))
                     (Fin 100)) (Fin 15) =
                   Fin ((m0 * pi_se - m_act) / m_act * 100 - 15)"
    by (simp only: np_sub_Fin np_div_Fin_pos [OF act_pos] np_mul_Fin_pos_right [OF c100])
  have mg: "margin_of_fracs e (Fin mpl) (?b, 1 - ?b, Fin (?b - pi_se), Fin pi_se) =
      Inr (Fin ((m0 * pi_se - m_act) / m_act * 100 - 15), Fin m0, Fin ne)"
    unfolding margin_of_fracs_def prod.case Let_def n_m0 n_mse n_mprop n_ne pbn
    by (simp only: bind_result_def sum.case option.case prod.case assms(7) n_act n_margin)
  have gm: "get_margin e (Fin mpl) dv (Fin pi_se) =
      Some (Inr (Fin ((m0 * pi_se - m_act) / m_act * 100 - 15), Fin m0, Fin ne))"
    unfolding get_margin_def fr by (simp only: option.case bind_result_def sum.case mg)
  have comm: "12.16 * (v_ox + v_f) + losses + dry * ne = m_act"
    unfolding m_act_def by (simp only: mult.commute)
  show ?thesis
    unfolding Let_def m0_def [symmetric]
    unfolding m_prop_def [symmetric] ne_def [symmetric]
    unfolding pb
    using gm act by (simp only: sum.case option.case prod.case comm simp_thms)
qed

theorem get_margin_formulas_witness:
  "get_margin \<lparr>F = 12, isp = 1, mass = Some 1, ox = \<lparr>rho = 2, T = 90\<rparr>,
                 fuel = \<lparr>rho = 4, T = 20\<rparr>, MR = 1, mdot = 1\<rparr> (Fin 1) 0 (Fin (1 / 2)) =
     Some (Inr (Fin (- 1830 / 17), Fin 2, Fin 2))"
proof -
  let ?e = "\<lparr>F = 12, isp = 1, mass = Some 1, ox = \<lparr>rho = 2, T = 90\<rparr>,
             fuel = \<lparr>rho = 4, T = 20\<rparr>, MR = 1, mdot = 1\<rparr>"
  have pb: "prop_budget 0 ?e 0.05 1 = Inr (Some (0, 0, 10 / 19, 5 / 19, 2))"
    by (simp add: prop_budget_def bind_result_def divide_checked_def)
  have ce: "\<lceil>1.2 * 2 * g / 12\<rceil> = 2"
    by (simp add: g_def ceiling_eq_iff)
  have "0 < F ?e" "0 < isp ?e" "0 < MR ?e" "0 < mdot ?e" "0 < rho (ox ?e)" "0 < rho (fuel ?e)"
    "mass ?e = Some 1" "(0::real) \<le> 1" "(0::real) \<le> 1" "(0::real) \<le> 0" "(0::real) < 1 / 2"
    "(1 / 2 :: real) < exp (- 0 / (isp ?e * g))"
    by simp_all
  from get_margin_formulas [OF this]
  show ?thesis
    using pb ce by (simp add: Let_def)
qed

subsection \<open>\<^verbatim>\<open>Engine.__init__\<close>\<close>

text \<open>
What a successful construction stores in each attribute.
\<close>

lemma Engine_Inr:
  assumes "Engine thrust I fuel' ox' MR' mass' = Inr e"
  shows "I \<noteq> 0" and "F e = thrust" and "isp e = I" and "ox e = ox'" and "fuel e = fuel'"
    and "MR e = MR'" and "mdot e = thrust / (I * g)"
    and "mass e = (case mass' of None \<Rightarrow> Some (0.000781 * thrust + 0.0000337 * thrust * sqrt 30 + 59)
                   | Some _ \<Rightarrow> None)"
  using assms
  by (auto simp add: Engine_def bind_result_def divide_checked_def split: if_splits)

text \<open>
  C9. An \<^verbatim>\<open>Engine\<close> constructed with a dry mass supplied by the caller has no attribute
  \<^verbatim>\<open>mass\<close>: the supplied value is dropped. Every later call of \<^verbatim>\<open>get_margin\<close> with such an
  engine fails: it returns an error for every payload mass, delta-v and trial fraction. The
  error is the \<^verbatim>\<open>AttributeError\<close> of reading \<^verbatim>\<open>engine.mass\<close> on line 112, unless
  \<open>MR + 1 = 0\<close>, where \<^verbatim>\<open>prop_budget\<close> raises \<^verbatim>\<open>ZeroDivisionError\<close> on the line before.
\<close>

theorem Engine_supplied_mass_discarded:
  assumes "Engine thrust I fuel' ox' MR' (Some m) = Inr e"
  shows "mass e = None \<and>
         (\<exists>err. get_margin e mpl dv (Fin pi_se) = Some (Inl err)) \<and>
         (MR' + 1 \<noteq> 0 \<longrightarrow> get_margin e mpl dv (Fin pi_se) = Some (Inl AttributeError)) \<and>
         (MR' + 1 = 0 \<longrightarrow> get_margin e mpl dv (Fin pi_se) = Some (Inl ZeroDivision))"
proof -
  note E = Engine_Inr [OF assms]
  let ?b = "exp (- dv / (isp e * g))"
  have no_mass: "mass e = None"
    using E(8) by simp
  have "isp e \<noteq> 0"
    using E(1) E(3) by simp
  from repaired_fracs_steps [OF this, of dv pi_se]
  obtain n where fr:
    "repaired_fracs e dv (Fin pi_se) =
       Some (Inr (?b, 1 - ?b, Fin (?b - pi_se / 2 ^ n), Fin (pi_se / 2 ^ n)))"
    by blast
  have gm: "get_margin e mpl dv (Fin pi_se) =
              Some (margin_of_fracs e mpl (?b, 1 - ?b, Fin (?b - pi_se / 2 ^ n),
                                           Fin (pi_se / 2 ^ n)))"
    unfolding get_margin_def fr by (simp only: option.case bind_result_def sum.case)
  have fails: "\<exists>err. get_margin e mpl dv (Fin pi_se) = Some (Inl err)"
    unfolding gm using margin_of_fracs_no_mass [OF no_mass] by simp
  have lt: "(0.05 :: real) < 1"
    by simp
  have attr: "get_margin e mpl dv (Fin pi_se) = Some (Inl AttributeError)" if "MR' + 1 \<noteq> 0"
  proof -
    have "MR e + 1 \<noteq> 0"
      using that E(6) by simp
    from prop_budget_np_returns [OF this lt]
    obtain budget where
      "prop_budget_np (np_mul (Fin (1 - ?b)) (np_div mpl (Fin (?b - pi_se / 2 ^ n)))) e 0.05 1 =
         Inr (Some budget)"
      by blast
    then show ?thesis
      unfolding gm margin_of_fracs_def Let_def prod.case
      by (cases budget) (simp only: bind_result_def sum.case option.case prod.case no_mass)
  qed
  have zd: "get_margin e mpl dv (Fin pi_se) = Some (Inl ZeroDivision)" if "MR' + 1 = 0"
  proof -
    have "MR e + 1 = 0"
      using that E(6) by simp
    from prop_budget_np_raises [OF this lt]
    have "prop_budget_np (np_mul (Fin (1 - ?b)) (np_div mpl (Fin (?b - pi_se / 2 ^ n)))) e 0.05 1 =
         Inl ZeroDivision" .
    then show ?thesis
      unfolding gm margin_of_fracs_def Let_def prod.case
      by (simp only: bind_result_def sum.case)
  qed
  show ?thesis
    using no_mass fails attr zd by blast
qed

theorem Engine_supplied_mass_discarded_witness:
  "Engine 12 1 lh2 lox 1 (Some 5) =
     Inr \<lparr>F = 12, isp = 1, mass = None, ox = lox, fuel = lh2, MR = 1, mdot = 12 / g\<rparr> \<and>
   get_margin \<lparr>F = 12, isp = 1, mass = None, ox = lox, fuel = lh2, MR = 1, mdot = 12 / g\<rparr>
     (Fin 1) 0 (Fin (1 / 2)) = Some (Inl AttributeError)"
proof -
  let ?e = "\<lparr>F = 12, isp = 1, mass = None, ox = lox, fuel = lh2, MR = 1, mdot = 12 / g\<rparr>"
  have E: "Engine 12 1 lh2 lox 1 (Some 5) = Inr ?e"
    by (simp add: Engine_def bind_result_def divide_checked_def g_def)
  have nz: "(1::real) + 1 \<noteq> 0"
    by simp
  from Engine_supplied_mass_discarded [OF E, of "Fin 1" 0 "1 / 2"] nz
  have "get_margin ?e (Fin 1) 0 (Fin (1 / 2)) = Some (Inl AttributeError)"
    by blast
  then show ?thesis
    using E by simp
qed

subsection \<open>Values that are not finite\<close>

text \<open>
  A quotient by zero is an infinity or NaN, and such a value stays one through the
  operations that follow in \<^verbatim>\<open>get_margin\<close>; the quotient of two of them is NaN.
\<close>

lemma nonfinite_div_zero: "nonfinite (np_div a (Fin 0))"
  by (cases a) (simp_all add: nonfinite_def np_div_def signed_inf_def)

lemma nonfinite_mul_left: "nonfinite a \<Longrightarrow> nonfinite (np_mul a b)"
  by (cases a; cases b) (simp_all add: nonfinite_def np_mul_def signed_inf_def)

lemma nonfinite_mul_right: "nonfinite b \<Longrightarrow> nonfinite (np_mul a b)"
  by (cases a; cases b) (simp_all add: nonfinite_def np_mul_def signed_inf_def)

lemma nonfinite_div_Fin: "nonfinite a \<Longrightarrow> nonfinite (np_div a (Fin x))"
  by (cases a) (simp_all add: nonfinite_def np_div_def signed_inf_def)

lemma nonfinite_ceil: "nonfinite a \<Longrightarrow> nonfinite (np_ceil a)"
  by (cases a) (simp_all add: nonfinite_def)

lemma nonfinite_add_right: "nonfinite b \<Longrightarrow> nonfinite (np_add a b)"
  by (cases a; cases b) (simp_all add: nonfinite_def)

lemma nonfinite_neg: "nonfinite a \<Longrightarrow> nonfinite (np_neg a)"
  by (cases a) (simp_all add: nonfinite_def)

lemma nonfinite_sub_right: "nonfinite b \<Longrightarrow> nonfinite (np_sub a b)"
  unfolding np_sub_def by (rule nonfinite_add_right) (rule nonfinite_neg)

lemma np_div_nonfinite: "nonfinite a \<Longrightarrow> nonfinite b \<Longrightarrow> np_div a b = NaN"
  by (cases a; cases b) (simp_all add: nonfinite_def np_div_def)

lemma np_mul_NaN [simp]: "np_mul NaN b = NaN"
  by (simp add: np_mul_def)

lemma np_sub_NaN [simp]: "np_sub NaN b = NaN"
  by (simp add: np_sub_def)

subsection \<open>\<^verbatim>\<open>get_margin\<close> at the feasibility boundary\<close>

text \<open>
  Lines 104 to 115 on a fraction set with \<open>pi_pl = 0\<close>: \<open>m0\<close> is the quotient of the payload
  mass by zero, the engine count and \<open>m_act\<close> inherit its infinity or NaN, and the margin,
  a quotient of two such values, is NaN. Nothing raises.
\<close>

lemma margin_of_fracs_zero_pi_pl:
  assumes "MR e + 1 \<noteq> 0" and "mass e = Some dry" and "0 < pi_se"
  shows "margin_of_fracs e mpl (pi_bo, pi_prop, Fin 0, Fin pi_se) =
           Inr (NaN, np_div mpl (Fin 0),
                np_ceil (np_div (np_mul (np_mul (Fin 1.2) (np_div mpl (Fin 0))) (Fin g))
                           (Fin (F e))))"
proof -
  let ?m0 = "np_div mpl (Fin 0)"
  let ?ne = "np_ceil (np_div (np_mul (np_mul (Fin 1.2) ?m0) (Fin g)) (Fin (F e)))"
  let ?m_se = "np_mul ?m0 (Fin pi_se)"
  have m0: "nonfinite ?m0"
    by (rule nonfinite_div_zero)
  have ne: "nonfinite ?ne"
    by (intro nonfinite_ceil nonfinite_div_Fin nonfinite_mul_left nonfinite_mul_right m0)
  have lt: "(0.05 :: real) < 1"
    by simp
  from prop_budget_np_returns [OF assms(1) lt]
  obtain budget where pb:
    "prop_budget_np (np_mul (Fin pi_prop) ?m0) e 0.05 1 = Inr (Some budget)"
    by blast
  obtain m_ox m_f v_ox v_f losses where b: "budget = (m_ox, m_f, v_ox, v_f, losses)"
    by (cases budget)
  let ?m_act = "np_add (np_add (np_mul (np_add v_ox v_f) (Fin 12.16)) losses)
                  (np_mul (Fin dry) ?ne)"
  have act: "nonfinite ?m_act"
    by (intro nonfinite_add_right nonfinite_mul_right ne)
  have num: "nonfinite (np_sub ?m_se ?m_act)"
    by (rule nonfinite_sub_right [OF act])
  have "np_div (np_sub ?m_se ?m_act) ?m_act = NaN"
    by (rule np_div_nonfinite [OF num act])
  then have margin: "np_sub (np_mul (np_div (np_sub ?m_se ?m_act) ?m_act) (Fin 100)) (Fin 15) = NaN"
    by simp
  show ?thesis
    unfolding margin_of_fracs_def prod.case Let_def pb b
    by (simp only: bind_result_def sum.case option.case prod.case assms(2) margin)
qed

lemma repaired_fracs_boundary:
  assumes "isp e \<noteq> 0"
  shows "repaired_fracs e dv (Fin (exp (- dv / (isp e * g)))) =
           Some (Inr (exp (- dv / (isp e * g)), 1 - exp (- dv / (isp e * g)), Fin 0,
                      Fin (exp (- dv / (isp e * g)))))"
  using assms by (simp add: repaired_fracs_def mass_fractions_np_eq)

lemma get_margin_at_boundary:
  assumes "isp e \<noteq> 0" and "MR e + 1 \<noteq> 0" and "mass e = Some dry"
  shows "get_margin e mpl dv (Fin (exp (- dv / (isp e * g)))) =
           Some (Inr (NaN, np_div mpl (Fin 0),
                      np_ceil (np_div (np_mul (np_mul (Fin 1.2) (np_div mpl (Fin 0))) (Fin g))
                                 (Fin (F e)))))"
proof -
  have pos: "0 < exp (- dv / (isp e * g))"
    by simp
  show ?thesis
    unfolding get_margin_def repaired_fracs_boundary [OF assms(1)]
    by (simp only: option.case bind_result_def sum.case
        margin_of_fracs_zero_pi_pl [OF assms(2) assms(3) pos])
qed

lemma positive_payload_over_zero:
  assumes "0 < p" and "0 < thrust"
  shows "np_div (Fin p) (Fin 0) = PInf"
    and "np_ceil (np_div (np_mul (np_mul (Fin 1.2) PInf) (Fin g)) (Fin thrust)) = PInf"
  using assms g_pos by (simp_all add: np_div_def np_mul_def signed_inf_def)

text \<open>
  C10, as the specification states it: \<^verbatim>\<open>get_margin\<close> is not total at the feasibility
  boundary. For the test engine, a payload of 1000 kg and \<open>dv = 0\<close> the boundary is
  \<open>pi_se = pi_bo = 1\<close>; \<^verbatim>\<open>mass_fractions\<close> returns \<open>pi_pl = 0\<close>, the division
  \<^verbatim>\<open>mpl/pi_pl\<close> has numpy operands and does not raise, and \<^verbatim>\<open>get_margin\<close> returns the
  triple \<open>(nan, inf, inf)\<close>.
\<close>

theorem get_margin_boundary_counterexample:
  "mass_fractions 465.5 0 1 = Inr (Some (1, 0, 0, 1)) \<and>
   get_margin rl10_light (Fin 1000) 0 (Fin 1) = Some (Inr (NaN, PInf, PInf))"
proof -
  have e: "exp (- 0 / (isp rl10_light * g)) = (1::real)"
    by simp
  have "isp rl10_light \<noteq> 0" "MR rl10_light + 1 \<noteq> 0" "mass rl10_light = Some 30.5075"
    by (simp_all add: rl10_light_def)
  from get_margin_at_boundary [OF this, of "Fin 1000" 0]
  have "get_margin rl10_light (Fin 1000) 0 (Fin 1) = Some (Inr (NaN, PInf, PInf))"
    unfolding e
    by (simp add: rl10_light_def np_div_def np_mul_def signed_inf_def g_def)
  then show ?thesis
    by (simp add: mass_fractions_eq)
qed

text \<open>
  C10, amended: \<^verbatim>\<open>get_margin\<close> has no finite result at the feasibility boundary. Its
  repair loop is entered only when \<^verbatim>\<open>mass_fractions\<close> reports infeasibility, which happens
  only for \<open>pi_se\<close> strictly greater than \<open>pi_bo\<close>; when the trial fraction equals \<open>pi_bo\<close>
  exactly, \<^verbatim>\<open>mass_fractions\<close> returns \<open>pi_pl = 0\<close> and \<^verbatim>\<open>get_margin\<close> divides the payload
  mass by zero when forming \<open>m0 = mpl / pi_pl\<close>. The division does not raise: \<open>m0\<close> and the
  engine count are infinite or NaN, and \<^verbatim>\<open>get_margin\<close> (for an engine with a dry mass and
  \<open>MR + 1 \<noteq> 0\<close>) returns them with the margin NaN; for a positive payload and thrust the
  triple is \<open>(nan, inf, inf)\<close>.
\<close>

theorem get_margin_boundary:
  assumes "isp e \<noteq> 0"
  shows "let pi_bo = exp (- dv / (isp e * g));
             m0 = np_div mpl (Fin 0);
             ne = np_ceil (np_div (np_mul (np_mul (Fin 1.2) m0) (Fin g)) (Fin (F e)))
         in
           (mass_fractions (isp e) dv pi_se = Inr None) = (pi_se > pi_bo) \<and>
           mass_fractions (isp e) dv pi_bo = Inr (Some (pi_bo, 1 - pi_bo, 0, pi_bo)) \<and>
           repaired_fracs e dv (Fin pi_bo) = Some (Inr (pi_bo, 1 - pi_bo, Fin 0, Fin pi_bo)) \<and>
           nonfinite m0 \<and> nonfinite ne \<and>
           (MR e + 1 \<noteq> 0 \<and> mass e \<noteq> None \<longrightarrow>
              get_margin e mpl dv (Fin pi_bo) = Some (Inr (NaN, m0, ne))) \<and>
           (MR e + 1 \<noteq> 0 \<and> mass e \<noteq> None \<and> 0 < p \<and> 0 < F e \<longrightarrow>
              get_margin e (Fin p) dv (Fin pi_bo) = Some (Inr (NaN, PInf, PInf)))"
proof -
  let ?b = "exp (- dv / (isp e * g))"
  let ?m0 = "np_div mpl (Fin 0)"
  let ?ne = "np_ceil (np_div (np_mul (np_mul (Fin 1.2) ?m0) (Fin g)) (Fin (F e)))"
  have a: "(mass_fractions (isp e) dv pi_se = Inr None) = (pi_se > ?b)"
    using assms by (simp add: mass_fractions_eq)
  have b: "mass_fractions (isp e) dv ?b = Inr (Some (?b, 1 - ?b, 0, ?b))"
    using assms by (simp add: mass_fractions_eq)
  note c = repaired_fracs_boundary [OF assms, of dv]
  have m0: "nonfinite ?m0"
    by (rule nonfinite_div_zero)
  have ne: "nonfinite ?ne"
    by (intro nonfinite_ceil nonfinite_div_Fin nonfinite_mul_left nonfinite_mul_right m0)
  have d: "get_margin e mpl dv (Fin ?b) = Some (Inr (NaN, ?m0, ?ne))"
    if "MR e + 1 \<noteq> 0" "mass e \<noteq> None"
  proof -
    from that(2) obtain dry where "mass e = Some dry"
      by auto
    from get_margin_at_boundary [OF assms that(1) this]
    show ?thesis .
  qed
  have f: "get_margin e (Fin p) dv (Fin ?b) = Some (Inr (NaN, PInf, PInf))"
    if "MR e + 1 \<noteq> 0" "mass e \<noteq> None" "0 < p" "0 < F e"
  proof -
    from that(2) obtain dry where "mass e = Some dry"
      by auto
    from get_margin_at_boundary [OF assms that(1) this, of "Fin p" dv]
    show ?thesis
      by (simp only: positive_payload_over_zero [OF that(3) that(4)])
  qed
  show ?thesis
    unfolding Let_def using a b c m0 ne d f by blast
qed

theorem get_margin_boundary_witness:
  "mass_fractions 1 0 1 = Inr (Some (1, 0, 0, 1)) \<and>
   repaired_fracs \<lparr>F = 12, isp = 1, mass = Some 1, ox = lox, fuel = lh2, MR = 1, mdot = 1\<rparr> 0
     (Fin 1) = Some (Inr (1, 0, Fin 0, Fin 1)) \<and>
   get_margin \<lparr>F = 12, isp = 1, mass = Some 1, ox = lox, fuel = lh2, MR = 1, mdot = 1\<rparr>
     (Fin 1000) 0 (Fin 1) = Some (Inr (NaN, PInf, PInf))"
proof -
  let ?e = "\<lparr>F = 12, isp = 1, mass = Some 1, ox = lox, fuel = lh2, MR = 1, mdot = 1\<rparr>"
  have "isp ?e \<noteq> 0"
    by simp
  from get_margin_boundary [OF this, of 0 "Fin 1000" 2 1000]
  show ?thesis
    by (simp add: Let_def np_div_def np_mul_def signed_inf_def g_def)
qed

subsection \<open>What \<^verbatim>\<open>size_vehicle\<close> returns\<close>

text \<open>
  Whenever the loop ends normally, the \<^verbatim>\<open>margin\<close> it hands back is the value of
  \<^verbatim>\<open>get_margin\<close> at the iterate before the last update, for which the test
  \<^verbatim>\<open>abs(change) >= 1e-6\<close> was false. Induction over the unfolding of the loop.
\<close>

lemma size_vehicle_loop_exit:
  assumes "size_vehicle_loop e mpl dv x0 = Some r"
  shows "\<forall>x1 margin. r = Inr (x1, margin) \<longrightarrow>
           (\<exists>prev. get_margin e mpl dv prev = Some (Inr margin) \<and>
                   \<not> np_ge (np_abs (np_sub x1 prev)) (Fin 0.000001))"
proof (rule size_vehicle_loop.raw_induct
    [where P = "\<lambda>e mpl dv x0 r. \<forall>x1 margin. r = Inr (x1, margin) \<longrightarrow>
       (\<exists>prev. get_margin e mpl dv prev = Some (Inr margin) \<and>
               \<not> np_ge (np_abs (np_sub x1 prev)) (Fin 0.000001))",
     OF _ assms], goal_cases)
  case (1 loop e mpl dv x0 r)
  show ?case
    using 1(2) 1(1)
    by (auto simp add: Let_def split: option.splits sum.splits if_splits)
qed

text \<open>
  So the two components that \<^verbatim>\<open>size_vehicle\<close> returns come from two evaluations: \<open>m0\<close> from
  \<^verbatim>\<open>get_margin\<close> at the final \<^verbatim>\<open>x1\<close>, \<open>ne\<close> from \<^verbatim>\<open>get_margin\<close> at the iterate before it.
\<close>

lemma size_vehicle_result:
  assumes "size_vehicle mpl dv e = Some (Inr (m0, ne))"
  shows "\<exists>x1 prev mg mg' ne' m0'.
           \<not> np_ge (np_abs (np_sub x1 prev)) (Fin 0.000001) \<and>
           get_margin e mpl dv x1 = Some (Inr (mg, m0, ne')) \<and>
           get_margin e mpl dv prev = Some (Inr (mg', m0', ne))"
proof -
  from assms obtain x1 margin final where
    loop: "size_vehicle_loop e mpl dv (Fin 0.01) = Some (Inr (x1, margin))"
    and fin: "get_margin e mpl dv x1 = Some (Inr final)"
    and res: "m0 = fst (snd final)" "ne = snd (snd margin)"
    by (auto simp add: size_vehicle_def split: option.splits sum.splits prod.splits)
  from size_vehicle_loop_exit [OF loop]
  obtain prev where prev: "get_margin e mpl dv prev = Some (Inr margin)"
    "\<not> np_ge (np_abs (np_sub x1 prev)) (Fin 0.000001)"
    by blast
  show ?thesis
    using prev fin res by (cases final, cases margin) auto
qed

subsection \<open>\<^verbatim>\<open>size_vehicle\<close> on the test engine\<close>

text \<open>
  With \<open>dv = 0\<close> the burnout fraction is \<open>exp 0 = 1\<close> and no propellant is burnt, so every
  quantity is rational and the run can be followed exactly.
\<close>

lemma rl10_light_budget:
  "prop_budget_np (Fin 0) rl10_light (1 / 20) 1 =
     Inr (Some (Fin 0, Fin 0, Fin (17616000000 / 461429752721),
                Fin (176160000000 / 995716834819), Fin (8808000000 / 182599823)))"
  by (simp add: prop_budget_np_def bind_result_def py_div_def rl10_light_def
      lox_def lh2_def g_def np_mul_Fin np_div_Fin signed_zero_def Let_def)

lemma rl10_light_fields:
  "F rl10_light = 110100" "isp rl10_light = 4655 / 10" "mass rl10_light = Some (305075 / 10000)"
  by (simp_all add: rl10_light_def)

lemma rl10_light_fracs:
  assumes "x \<le> 1"
  shows "repaired_fracs rl10_light 0 (Fin x) = Some (Inr (1, 0, Fin (1 - x), Fin x))"
  using assms by (simp add: repaired_fracs_def rl10_light_fields mass_fractions_np_eq)

text \<open>
  The first pass of the loop: \<^verbatim>\<open>get_margin\<close> at \<open>x1 = 0.01\<close> and at
  \<open>x2 = x1 - 0.001 * x1 = 0.00999\<close>. One engine lifts the vehicle at both points
  (\<open>1.2 * m0 * g / F\<close> is just below 1).
\<close>

lemma rl10_light_margin_x1:
  "get_margin rl10_light (Fin (46311677 / 5000)) 0 (Fin (1 / 100)) =
     Some (Inr (Fin (- 53921455710887 / 9352897111423701), Fin (46311677 / 4950), Fin 1))"
  by (simp add: get_margin_def rl10_light_fracs bind_result_def margin_of_fracs_def
      Let_def rl10_light_budget rl10_light_fields g_def np_mul_Fin np_div_Fin signed_zero_def)


lemma rl10_light_margin_x2:
  "get_margin rl10_light (Fin (46311677 / 5000)) 0 (Fin (999 / 100000)) =
     Some (Inr (Fin (- 162902168358780659 / 1336141655018842457), Fin (926233540 / 99001),
                Fin 1))"
  by (simp add: get_margin_def rl10_light_fracs bind_result_def margin_of_fracs_def
      Let_def rl10_light_budget rl10_light_fields g_def np_mul_Fin np_div_Fin signed_zero_def)

text \<open>
  At the updated fraction the vehicle is a little heavier, \<open>1.2 * m0 * g / F\<close> is just above
  1, and \<^verbatim>\<open>get_margin\<close> counts two engines.
\<close>

lemma rl10_light_margin_final:
  "get_margin rl10_light (Fin (46311677 / 5000)) 0
     (Fin (15365466130548329474841 / 1536470351940021040000000)) =
     Some (Inr (Fin (- 3098384750628993275300822896683880394591
                       / 98794685689505356932862761569753670641),
                Fin (14231303731824515555536816000 / 1521104885809472710525159), Fin 2))"
  by (simp add: get_margin_def rl10_light_fracs bind_result_def margin_of_fracs_def
      Let_def rl10_light_budget rl10_light_fields g_def np_mul_Fin np_div_Fin signed_zero_def)

text \<open>
The update moves \<open>x1\<close> by less than \<open>1e-6\<close>, so the loop ends after this one pass.
\<close>

lemma rl10_light_loop:
  "size_vehicle_loop rl10_light (Fin (46311677 / 5000)) 0 (Fin (1 / 100)) =
     Some (Inr (Fin (15365466130548329474841 / 1536470351940021040000000),
                (Fin (- 53921455710887 / 9352897111423701), Fin (46311677 / 4950), Fin 1)))"
  by (subst size_vehicle_loop.simps)
    (simp add: Let_def rl10_light_margin_x1 rl10_light_margin_x2 np_mul_Fin np_div_Fin)

text \<open>
  C4. The specification has \<^verbatim>\<open>size_vehicle\<close> return the \<open>m0\<close> and the \<open>ne\<close> of one final
  \<^verbatim>\<open>get_margin\<close> call at the converged fraction. Line 139 takes \<open>m0\<close> from such a call but
  \<open>ne\<close> from the loop variable \<^verbatim>\<open>margin\<close>, the evaluation at the previous iterate. For the
  test engine, a payload of 9262.3354 kg and \<open>dv = 0\<close> the loop converges in one pass;
  \<^verbatim>\<open>size_vehicle\<close> returns the engine count 1 together with the total mass of the final
  call, whose own engine count is 2.
\<close>

theorem size_vehicle_stale_ne:
  "size_vehicle (Fin 9262.3354) 0 rl10_light =
     Some (Inr (Fin (14231303731824515555536816000 / 1521104885809472710525159), Fin 1)) \<and>
   size_vehicle_loop rl10_light (Fin 9262.3354) 0 (Fin 0.01) =
     Some (Inr (Fin (15365466130548329474841 / 1536470351940021040000000),
                (Fin (- 53921455710887 / 9352897111423701), Fin (46311677 / 4950), Fin 1))) \<and>
   get_margin rl10_light (Fin 9262.3354) 0
     (Fin (15365466130548329474841 / 1536470351940021040000000)) =
     Some (Inr (Fin (- 3098384750628993275300822896683880394591
                       / 98794685689505356932862761569753670641),
                Fin (14231303731824515555536816000 / 1521104885809472710525159), Fin 2))"
  by (simp add: size_vehicle_def rl10_light_loop rl10_light_margin_final)

subsection \<open>A run of \<^verbatim>\<open>size_vehicle\<close> through the special values\<close>

text \<open>
  The test engine with a payload of zero. Both margins of the first pass are \<open>-115\<close>, the
  slope estimate is \<open>0 / dx\<close>, the negative zero since \<open>dx < 0\<close>, and the update
  \<open>115 / (-0)\<close> sends \<open>x1\<close> to \<open>-inf\<close> without raising. The second pass evaluates
  \<^verbatim>\<open>get_margin\<close> at \<open>-inf\<close> and at \<open>x2 = -inf + inf\<close>, a NaN; the new \<open>x1\<close> and
  \<^verbatim>\<open>change\<close> are NaN, the test \<^verbatim>\<open>abs(change) >= 1e-6\<close> is false, and the loop ends.
  \<^verbatim>\<open>size_vehicle\<close> returns \<open>(nan, 0)\<close>.
\<close>

lemma rl10_light_margin_zero_payload:
  assumes "0 < x" and "x < 1"
  shows "get_margin rl10_light (Fin 0) 0 (Fin x) = Some (Inr (Fin (- 115), Fin 0, Fin 0))"
  using assms
  by (simp add: get_margin_def rl10_light_fracs bind_result_def margin_of_fracs_def
      Let_def rl10_light_budget rl10_light_fields g_def np_mul_Fin np_div_Fin signed_zero_def)

lemma rl10_light_fracs_NInf:
  "repaired_fracs rl10_light 0 NInf = Some (Inr (1, 0, PInf, NInf))"
  by (simp add: repaired_fracs_def rl10_light_fields mass_fractions_np_eq np_sub_def)

lemma rl10_light_fracs_NaN:
  "repaired_fracs rl10_light 0 NaN = Some (Inr (1, 0, NaN, NaN))"
  by (simp add: repaired_fracs_def rl10_light_fields mass_fractions_np_eq np_sub_def)

lemma rl10_light_margin_NInf:
  "get_margin rl10_light (Fin 0) 0 NInf = Some (Inr (NaN, Fin 0, Fin 0))"
  by (simp add: get_margin_def rl10_light_fracs_NInf bind_result_def margin_of_fracs_def
      Let_def rl10_light_budget rl10_light_fields g_def np_mul_Fin np_div_Fin signed_zero_def
      np_mul_def np_div_def np_sub_def)

lemma prop_budget_np_NaN:
  "prop_budget_np NaN rl10_light (1 / 20) 1 =
     Inr (Some (NaN, NaN, NaN, NaN, Fin (8808000000 / 182599823)))"
  by (simp add: prop_budget_np_def bind_result_def py_div_def rl10_light_def
      lox_def lh2_def g_def np_mul_Fin np_div_Fin signed_zero_def Let_def
      np_mul_def np_div_def np_sub_def)

lemma rl10_light_margin_NaN:
  "get_margin rl10_light (Fin 0) 0 NaN = Some (Inr (NaN, NaN, NaN))"
  by (simp add: get_margin_def rl10_light_fracs_NaN bind_result_def margin_of_fracs_def
      Let_def prop_budget_np_NaN rl10_light_fields g_def
      np_mul_def np_div_def np_sub_def)

lemma rl10_light_loop_NInf:
  "size_vehicle_loop rl10_light (Fin 0) 0 NInf = Some (Inr (NaN, (NaN, Fin 0, Fin 0)))"
  by (subst size_vehicle_loop.simps)
    (simp add: Let_def rl10_light_margin_NInf rl10_light_margin_NaN
      np_mul_def np_div_def np_sub_def signed_inf_def)

lemma rl10_light_loop_zero_payload:
  "size_vehicle_loop rl10_light (Fin 0) 0 (Fin (1 / 100)) =
     Some (Inr (NaN, (NaN, Fin 0, Fin 0)))"
  by (subst size_vehicle_loop.simps)
    (simp add: Let_def rl10_light_margin_zero_payload rl10_light_loop_NInf
      np_mul_Fin np_div_Fin np_div_def np_sub_def signed_zero_def signed_inf_def)

lemma size_vehicle_zero_payload:
  "size_vehicle (Fin 0) 0 rl10_light = Some (Inr (NaN, Fin 0))"
  by (simp add: size_vehicle_def rl10_light_loop_zero_payload rl10_light_margin_NaN)

subsection \<open>The early stop of \<^verbatim>\<open>newton_raphson\<close>\<close>

text \<open>
  One pass of the loop whose slope estimate \<open>m\<close> is at most \<open>0.001\<close> ends the iteration with
  the printed line, whatever the magnitude of \<open>m\<close>.
\<close>

lemma newton_raphson_loop_stop:
  assumes "func (fst args) (fst (snd args)) x1 (snd (snd args)) = Inr y1"
    and "func (fst args) (fst (snd args)) (x1 + - 0.0001 * x1) (snd (snd args)) = Inr y2"
    and "length y1 > 1" and "length y2 > 1" and "x1 \<noteq> 0"
    and "m = (hd y2 - hd y1) / (- 0.0001 * x1)" and "m \<noteq> 0" and "m \<le> 0.001"
  shows "newton_raphson_loop func args guess x1 n =
           Some (Inr (- hd y1 / m + x1, [Unable_to_converge guess (- hd y1 / m + x1) (hd y1)]))"
proof -
  have "- 0.0001 * x1 \<noteq> 0"
    using assms(5) by simp
  then have d1: "divide_checked (hd y2 - hd y1) (- 0.0001 * x1) = Inr m"
    unfolding divide_checked_def assms(6) by (simp only: if_False)
  have d2: "divide_checked (- hd y1) m = Inr (- hd y1 / m)"
    unfolding divide_checked_def using assms(7) by (simp only: if_False)
  have len: "(1 < length y1 \<and> 1 < length y2) = True"
    using assms(3) assms(4) by simp
  have le: "(m \<le> 0.001) = True"
    using assms(8) by simp
  show ?thesis
    by (subst newton_raphson_loop.simps)
      (simp only: Let_def assms(1) assms(2) sum.case len le if_True d1 d2)
qed

text \<open>
  C7. The specification stops the iteration early when the magnitude of the slope estimate
  is at or below the threshold, and never for a steep slope. The source tests
  \<^verbatim>\<open>m <= 1e-3\<close> on the signed slope. For \<^verbatim>\<open>func\<close> returning \<open>(1 - x, 0)\<close> and the guess 2 the
  slope estimate is \<open>-1\<close>: the first pass finds the root 1, prints the did-not-converge
  line and breaks.
\<close>

theorem newton_raphson_negative_slope_stops:
  "newton_raphson (\<lambda>(a::unit) (b::unit) x (c::unit). Inr [1 - x, 0]) [2] ((), (), ()) =
     Some (Inr ([1], [Unable_to_converge 2 1 (- 1)]))"
  by (simp add: newton_raphson_def newton_raphson_loop.simps [of _ _ _ 2] Let_def
      divide_checked_def)

subsection \<open>The two stages of the sweep\<close>

lemma fs_hd: "hd fs = 1 / 10"
  by (simp add: fs_def upt_conv_Cons)

text \<open>
  C5, as the specification states it: the stage sized with the fixed payload gets the
  delta-v \<open>f * 9000\<close>. At the first swept fraction, \<open>f = 0.1\<close>, the call with the fixed
  payload 1000 receives \<open>8100 = (1 - f) * 9000\<close>, not \<open>900\<close>.
\<close>

theorem sweep_upper_stage_counterexample:
  "hd fs = 1 / 10 \<and> fst (m2_call_args (hd fs)) = Fin 1000 \<and>
   snd (m2_call_args (hd fs)) = 8100 \<and> hd fs * 9000 = 900 \<and>
   snd (m2_call_args (hd fs)) \<noteq> hd fs * 9000"
  by (simp add: fs_hd m2_call_args_def)

text \<open>
  C5, amended: for every fraction \<open>f\<close>, the stage sized with the fixed payload 1000 (the
  upper stage) is sized with delta-v \<open>(1 - f) * 9000\<close>, the other stage (the lower one) with
  \<open>f * 9000\<close>, and the lower stage's payload is the total mass \<open>m0\<close> that the sizing of the
  upper stage returned.
\<close>

theorem sweep_body_stages:
  "m2_call_args f = (Fin 1000, (1 - f) * 9000) \<and>
   m1_call_args f upper = (fst upper, f * 9000) \<and>
   sweep_body e st f =
     (case size_vehicle (Fin 1000) ((1 - f) * 9000) e of
        None \<Rightarrow> None
      | Some (Inl err) \<Rightarrow> Some (Inl err)
      | Some (Inr upper) \<Rightarrow>
          (case size_vehicle (fst upper) (f * 9000) e of
             None \<Rightarrow> None
           | Some (Inl err) \<Rightarrow> Some (Inl err)
           | Some (Inr lower) \<Rightarrow>
               Some (Inr (st\<lparr>ms := ms st @ [fst lower],
                              nes := nes st @ [np_add (snd lower) (snd upper)],
                              v1s := v1s st @ [f * 9000],
                              v2s := v2s st @ [(1 - f) * 9000]\<rparr>))))"
  by (simp add: m2_call_args_def m1_call_args_def sweep_body_def Let_def mult.commute
      split: option.splits sum.splits)

end
